theory Spec2Isabelle
  imports Complex_Main "HOL-Library.AList"
begin

section \<open>Python strings\<close>

text \<open>
  The program works on Python \<open>str\<close> values. They are modelled as HOL strings, one
  \<open>char\<close> per character of ASCII text. The functions below are the \<open>str\<close>
  methods and operators that \<open>map2.py\<close> calls.
\<close>

definition isspace :: "char \<Rightarrow> bool" where
  \<comment> \<open>\<open>str.isspace\<close> on one ASCII character: tab, LF, VT, FF, CR, FS, GS, RS, US, space.\<close>
  "isspace c = (c \<in> set [CHR 0x09, CHR 0x0A, CHR 0x0B, CHR 0x0C, CHR 0x0D,
                          CHR 0x1C, CHR 0x1D, CHR 0x1E, CHR 0x1F, CHR 0x20])"

definition isdigit :: "char \<Rightarrow> bool" where
  "isdigit c = (c \<in> set ''0123456789'')"

definition isalpha :: "char \<Rightarrow> bool" where
  "isalpha c = (c \<in> set ''abcdefghijklmnopqrstuvwxyzABCDEFGHIJKLMNOPQRSTUVWXYZ'')"

definition lower_char :: "char \<Rightarrow> char" where
  "lower_char c =
     (case map_of (zip ''ABCDEFGHIJKLMNOPQRSTUVWXYZ'' ''abcdefghijklmnopqrstuvwxyz'') c of
        Some d \<Rightarrow> d
      | None \<Rightarrow> c)"

definition lower :: "string \<Rightarrow> string" where
  \<comment> \<open>\<open>s.lower()\<close>\<close>
  "lower s = map lower_char s"

definition str_isdigit :: "string \<Rightarrow> bool" where
  \<comment> \<open>\<open>s.isdigit()\<close>: false on the empty string.\<close>
  "str_isdigit s = (s \<noteq> [] \<and> list_all isdigit s)"

definition strip :: "string \<Rightarrow> string" where
  \<comment> \<open>\<open>s.strip()\<close>\<close>
  "strip s = rev (dropWhile isspace (rev (dropWhile isspace s)))"

fun str_in :: "string \<Rightarrow> string \<Rightarrow> bool" where
  \<comment> \<open>\<open>sub in s\<close>\<close>
  "str_in sub [] = (sub = [])"
| "str_in sub (c # cs) = (take (length sub) (c # cs) = sub \<or> str_in sub cs)"

fun split_on :: "char \<Rightarrow> string \<Rightarrow> string list" where
  \<comment> \<open>\<open>s.split(sep)\<close> for a one-character separator: always at least one piece.\<close>
  "split_on sep [] = [[]]"
| "split_on sep (c # cs) =
     (if c = sep then [] # split_on sep cs
      else (case split_on sep cs of
              [] \<Rightarrow> [[c]]
            | p # ps \<Rightarrow> (c # p) # ps))"

fun split_ws :: "string \<Rightarrow> string list" where
  \<comment> \<open>\<open>s.split()\<close>: runs of whitespace separate, no empty pieces.\<close>
  "split_ws [] = []"
| "split_ws (c # cs) =
     (if isspace c then split_ws cs
      else (case cs of
              [] \<Rightarrow> [[c]]
            | d # ds \<Rightarrow>
                if isspace d then [c] # split_ws cs
                else (case split_ws cs of
                        [] \<Rightarrow> [[c]]
                      | p # ps \<Rightarrow> (c # p) # ps)))"

fun join :: "string \<Rightarrow> string list \<Rightarrow> string" where
  \<comment> \<open>\<open>sep.join(parts)\<close>\<close>
  "join sep [] = []"
| "join sep [p] = p"
| "join sep (p # q # ps) = p @ sep @ join sep (q # ps)"

function replace :: "string \<Rightarrow> string \<Rightarrow> string \<Rightarrow> string" where
  \<comment> \<open>\<open>s.replace(old, new)\<close>, leftmost non-overlapping occurrences.\<close>
  "replace old new [] = (if old = [] then new else [])"
| "replace old new (c # cs) =
     (if old = [] then new @ c # replace old new cs
      else if take (length old) (c # cs) = old
           then new @ replace old new (drop (length old) (c # cs))
           else c # replace old new cs)"
  by pat_completeness auto
termination
  by (relation "measure (\<lambda>(old, new, s). length s)") (auto simp: neq_Nil_conv)

definition digit_char :: "int \<Rightarrow> char" where
  "digit_char d =
     (case map_of (zip [0, 1, 2, 3, 4, 5, 6, 7, 8, 9] ''0123456789'') d of
        Some c \<Rightarrow> c
      | None \<Rightarrow> CHR ''0'')"

function digits10 :: "int \<Rightarrow> string" where
  \<comment> \<open>the decimal digits of a number that is not negative\<close>
  "digits10 n =
     (if n < 10 then [digit_char n]
      else digits10 (n div 10) @ [digit_char (n mod 10)])"
  by pat_completeness auto
termination
  by (relation "measure nat") auto

declare digits10.simps [simp del]

definition str_of_int :: "int \<Rightarrow> string" where
  \<comment> \<open>\<open>str(n)\<close> for an \<open>int\<close>\<close>
  "str_of_int n = (if n < 0 then CHR ''-'' # digits10 (- n) else digits10 n)"

definition fmt_02d :: "int \<Rightarrow> string" where
  \<comment> \<open>the format \<open>{n:02d}\<close>: zero padded to width two.\<close>
  "fmt_02d n = (let s = str_of_int n in if length s < 2 then CHR ''0'' # s else s)"

definition digit_val :: "char \<Rightarrow> int" where
  "digit_val c = (case map_of (zip ''0123456789'' [0, 1, 2, 3, 4, 5, 6, 7, 8, 9]) c of
                    Some d \<Rightarrow> d
                  | None \<Rightarrow> 0)"

definition int_of_digits :: "string \<Rightarrow> int" where
  \<comment> \<open>the number a string of decimal digits denotes\<close>
  "int_of_digits s = foldl (\<lambda>acc c. 10 * acc + digit_val c) 0 s"

fun int_digits :: "string \<Rightarrow> bool" where
  \<comment> \<open>the digit part of an integer literal: digits, single underscores between them.\<close>
  "int_digits [] = False"
| "int_digits [c] = isdigit c"
| "int_digits (c # d # cs) =
     (isdigit c \<and> (if d = CHR ''_'' then int_digits cs else int_digits (d # cs)))"

definition py_int :: "string \<Rightarrow> int option" where
  \<comment> \<open>\<open>int(s)\<close> for a string: \<open>None\<close> is \<open>ValueError\<close>.\<close>
  "py_int s =
     (let t = strip s;
          (neg, u) = (case t of
                        [] \<Rightarrow> (False, [])
                      | c # cs \<Rightarrow> if c = CHR ''-'' then (True, cs)
                                  else if c = CHR ''+'' then (False, cs)
                                  else (False, t))
      in if int_digits u
         then (let v = int_of_digits (filter (\<lambda>c. c \<noteq> CHR ''_'') u)
               in Some (if neg then - v else v))
         else None)"

section \<open>Regular expressions\<close>

text \<open>
  The patterns of \<open>map2.py\<close> are written as syntax trees, and matched the way Python's
  \<open>re\<close> module matches: by backtracking, the alternatives of a quantifier tried in
  priority order (greedy: longest first; lazy: shortest first), the first complete match
  winning. \<open>rx_run\<close> returns every way of matching at the current position, in that order.
\<close>

datatype cls =
    Lit char         \<comment> \<open>a literal character\<close>
  | Digit            \<comment> \<open>\<open>\d\<close>\<close>
  | Space            \<comment> \<open>\<open>\s\<close>\<close>
  | Wordc            \<comment> \<open>\<open>\w\<close>\<close>
  | Dot              \<comment> \<open>\<open>.\<close>: anything but a newline\<close>
  | OneOf "cls list" \<comment> \<open>\<open>[...]\<close>\<close>
  | NoneOf "cls list" \<comment> \<open>\<open>[^...]\<close>\<close>

datatype rx =
    Atom cls
  | Seq rx rx
  | Star rx          \<comment> \<open>\<open>r*\<close>\<close>
  | LazyStar rx      \<comment> \<open>\<open>r*?\<close>\<close>
  | Plus rx          \<comment> \<open>\<open>r+\<close>\<close>
  | Opt rx           \<comment> \<open>\<open>r?\<close>\<close>
  | Grp nat rx       \<comment> \<open>capturing group number n\<close>
  | Bol              \<comment> \<open>\<open>^\<close> (no MULTILINE)\<close>
  | Eol              \<comment> \<open>\<open>$\<close> (no MULTILINE): at the end, or before a final newline\<close>
  | Eps

fun cls_match :: "bool \<Rightarrow> cls \<Rightarrow> char \<Rightarrow> bool" where
  \<comment> \<open>the first argument is the IGNORECASE flag\<close>
  "cls_match ic (Lit a) c = (if ic then lower_char a = lower_char c else a = c)"
| "cls_match ic Digit c = isdigit c"
| "cls_match ic Space c = isspace c"
| "cls_match ic Wordc c = (isalpha c \<or> isdigit c \<or> c = CHR ''_'')"
| "cls_match ic Dot c = (c \<noteq> CHR 0x0A)"
| "cls_match ic (OneOf cs) c = list_ex (\<lambda>k. cls_match ic k c) cs"
| "cls_match ic (NoneOf cs) c = (\<not> list_ex (\<lambda>k. cls_match ic k c) cs)"

text \<open>
  A matching state: the number of characters consumed so far, the rest of the subject,
  and the groups captured so far (the most recent capture of a group first).
\<close>

type_synonym mstate = "nat \<times> string \<times> (nat \<times> string) list"

primrec star_greedy :: "(mstate \<Rightarrow> mstate list) \<Rightarrow> nat \<Rightarrow> mstate \<Rightarrow> mstate list" where
  \<comment> \<open>an iteration that consumes nothing ends the loop; the counter bounds the iterations
     by the length of the rest.\<close>
  "star_greedy f 0 st = [st]"
| "star_greedy f (Suc n) st =
     concat (map (\<lambda>st'. if fst st < fst st' then star_greedy f n st' else []) (f st)) @ [st]"

primrec star_lazy :: "(mstate \<Rightarrow> mstate list) \<Rightarrow> nat \<Rightarrow> mstate \<Rightarrow> mstate list" where
  "star_lazy f 0 st = [st]"
| "star_lazy f (Suc n) st =
     st # concat (map (\<lambda>st'. if fst st < fst st' then star_lazy f n st' else []) (f st))"

fun rx_run :: "bool \<Rightarrow> rx \<Rightarrow> mstate \<Rightarrow> mstate list" where
  "rx_run ic (Atom k) st =
     (case st of (i, s, g) \<Rightarrow>
        (case s of
           [] \<Rightarrow> []
         | c # cs \<Rightarrow> if cls_match ic k c then [(Suc i, cs, g)] else []))"
| "rx_run ic (Seq a b) st = concat (map (\<lambda>st'. rx_run ic b st') (rx_run ic a st))"
| "rx_run ic (Star a) st = star_greedy (\<lambda>st'. rx_run ic a st') (length (fst (snd st))) st"
| "rx_run ic (LazyStar a) st = star_lazy (\<lambda>st'. rx_run ic a st') (length (fst (snd st))) st"
| "rx_run ic (Plus a) st =
     concat (map (\<lambda>st'. star_greedy (\<lambda>st''. rx_run ic a st'') (length (fst (snd st'))) st')
                 (rx_run ic a st))"
| "rx_run ic (Opt a) st = rx_run ic a st @ [st]"
| "rx_run ic (Grp n a) st =
     map (\<lambda>st'. (fst st', fst (snd st'),
                  (n, take (fst st' - fst st) (fst (snd st))) # snd (snd st')))
         (rx_run ic a st)"
| "rx_run ic Bol st = (if fst st = 0 then [st] else [])"
| "rx_run ic Eol st = (if fst (snd st) = [] \<or> fst (snd st) = [CHR 0x0A] then [st] else [])"
| "rx_run ic Eps st = [st]"

definition lit :: "string \<Rightarrow> rx" where
  \<comment> \<open>a run of literal characters\<close>
  "lit s = foldr (\<lambda>c r. Seq (Atom (Lit c)) r) s Eps"

definition seqs :: "rx list \<Rightarrow> rx" where
  "seqs rs = foldr Seq rs Eps"

definition rep4 :: "rx \<Rightarrow> rx" where
  \<comment> \<open>\<open>r{4}\<close>\<close>
  "rep4 r = Seq r (Seq r (Seq r r))"

text \<open>A match object: start, end, and the captured groups.\<close>

record rmatch =
  m_start :: nat
  m_end :: nat
  m_groups :: "(nat \<times> string) list"

definition group :: "rmatch \<Rightarrow> nat \<Rightarrow> string" where
  \<comment> \<open>\<open>match.group(n)\<close> for a group that took part in the match\<close>
  "group m n = (case map_of (m_groups m) n of Some s \<Rightarrow> s | None \<Rightarrow> [])"

definition match_at :: "bool \<Rightarrow> rx \<Rightarrow> nat \<Rightarrow> string \<Rightarrow> rmatch option" where
  "match_at ic r i s =
     (case rx_run ic r (i, s, []) of
        [] \<Rightarrow> None
      | st # _ \<Rightarrow> Some \<lparr>m_start = i, m_end = fst st, m_groups = snd (snd st)\<rparr>)"

definition re_match :: "bool \<Rightarrow> rx \<Rightarrow> string \<Rightarrow> rmatch option" where
  \<comment> \<open>\<open>re.match(pattern, s)\<close>: a match at position 0 only\<close>
  "re_match ic r s = match_at ic r 0 s"

fun search_from :: "bool \<Rightarrow> rx \<Rightarrow> nat \<Rightarrow> string \<Rightarrow> rmatch option" where
  "search_from ic r i [] = match_at ic r i []"
| "search_from ic r i (c # cs) =
     (case match_at ic r i (c # cs) of
        Some m \<Rightarrow> Some m
      | None \<Rightarrow> search_from ic r (Suc i) cs)"

definition re_search :: "bool \<Rightarrow> rx \<Rightarrow> string \<Rightarrow> rmatch option" where
  \<comment> \<open>\<open>re.search(pattern, s)\<close>: the leftmost match\<close>
  "re_search ic r s = search_from ic r 0 s"

fun finditer_from :: "bool \<Rightarrow> rx \<Rightarrow> nat \<Rightarrow> nat \<Rightarrow> string \<Rightarrow> rmatch list" where
  \<comment> \<open>the successive non-overlapping matches, left to right; \<open>skip\<close> counts the characters
     still covered by the previous match.\<close>
  "finditer_from ic r skip i [] =
     (if skip = 0 then (case match_at ic r i [] of Some m \<Rightarrow> [m] | None \<Rightarrow> []) else [])"
| "finditer_from ic r skip i (c # cs) =
     (if 0 < skip then finditer_from ic r (skip - 1) (Suc i) cs
      else (case match_at ic r i (c # cs) of
              Some m \<Rightarrow> m # finditer_from ic r (m_end m - i - 1) (Suc i) cs
            | None \<Rightarrow> finditer_from ic r 0 (Suc i) cs))"

definition re_finditer :: "bool \<Rightarrow> rx \<Rightarrow> string \<Rightarrow> rmatch list" where
  \<comment> \<open>\<open>re.finditer(pattern, s)\<close>, and \<open>re.findall\<close> up to what is kept of each match\<close>
  "re_finditer ic r s = finditer_from ic r 0 0 s"

section \<open>Configuration\<close>

text \<open>The class \<open>Config\<close>: the output columns, their captions, and where each comes from.\<close>

definition FINAL_CSV_COLUMNS :: "string list" where
  "FINAL_CSV_COLUMNS =
    [''USA.OBD.INTERACTIVE.ACCOUNTS.TOTAL.M'',
     ''USA.OBD.INTERACTIVE.ACCOUNTS.NETNEW.M'',
     ''USA.OBD.INTERACTIVE.DARTS.TOTAL.M'',
     ''USA.OBD.INTERACTIVE.DARTS.CLEARED.M'',
     ''USA.OBD.INTERACTIVE.DARTS.CLEAREDAVG.M'',
     ''USA.OBD.INTERACTIVE.TRADING.OPTIONS.M'',
     ''USA.OBD.INTERACTIVE.TRADING.FUTURES.M'',
     ''USA.OBD.INTERACTIVE.TRADING.STOCKSHARES.M'',
     ''USA.OBD.INTERACTIVE.ACCOUNTLEVEL.EQUITY.M'',
     ''USA.OBD.INTERACTIVE.ACCOUNTLEVEL.FDIC.M'',
     ''USA.OBD.INTERACTIVE.ACCOUNTLEVEL.CREDITSATBROKER.M'',
     ''USA.OBD.INTERACTIVE.ACCOUNTLEVEL.CREDITSTOTAL.M'',
     ''USA.OBD.INTERACTIVE.ACCOUNTLEVEL.MARGINLOANS.M'',
     ''USA.OBD.INTERACTIVE.ACCOUNTLEVEL.CASH.M'',
     ''USA.OBD.INTERACTIVE.AVGCOMMISSION.STOCK.M'',
     ''USA.OBD.INTERACTIVE.AVGCOMMISSION.EQUITYOPTIONS.M'',
     ''USA.OBD.INTERACTIVE.AVGCOMMISSION.FUTURES.M'',
     ''USA.OBD.INTERACTIVE.AVGORDER.STOCK.M'',
     ''USA.OBD.INTERACTIVE.AVGORDER.EQUITYOPTIONS.M'',
     ''USA.OBD.INTERACTIVE.AVGORDER.FUTURES.M'']"

definition DESCRIPTIVE_HEADERS :: "(string \<times> string) list" where
  "DESCRIPTIVE_HEADERS =
    [('''', ''''),
     (''USA.OBD.INTERACTIVE.ACCOUNTS.TOTAL.M'',
      ''From Monthly Metrics:\<newline> Accounts:\<newline> Total Accounts:\<newline> Thousands''),
     (''USA.OBD.INTERACTIVE.ACCOUNTS.NETNEW.M'',
      ''From Monthly Metrics:\<newline> Accounts:\<newline> Net New Accounts:\<newline> Thousands''),
     (''USA.OBD.INTERACTIVE.DARTS.TOTAL.M'',
      ''From Monthly Metrics:\<newline> DARTs:\<newline> Total Client DARTs:\<newline> Thousands''),
     (''USA.OBD.INTERACTIVE.DARTS.CLEARED.M'',
      ''From Monthly Metrics:\<newline> DARTs:\<newline> Cleared Client DARTs:\<newline> Thousands''),
     (''USA.OBD.INTERACTIVE.DARTS.CLEAREDAVG.M'',
      ''From Monthly Metrics:\<newline> DARTs:\<newline> Cleared Avg. DART per Account:\<newline> #''),
     (''USA.OBD.INTERACTIVE.TRADING.OPTIONS.M'',
      ''From Monthly Metrics:\<newline> Trading Volumes:\<newline> Options Contracts:\<newline> Thousands''),
     (''USA.OBD.INTERACTIVE.TRADING.FUTURES.M'',
      ''From Monthly Metrics:\<newline> Trading Volumes:\<newline> Futures Contracts:\<newline> Thousands''),
     (''USA.OBD.INTERACTIVE.TRADING.STOCKSHARES.M'',
      ''From Monthly Metrics:\<newline> Trading Volumes:\<newline> Stock Shares:\<newline> Thousands''),
     (''USA.OBD.INTERACTIVE.ACCOUNTLEVEL.EQUITY.M'',
      ''From Monthly Metrics:\<newline> Account Levels ($):\<newline> Client Equity:\<newline> $ Bln.''),
     (''USA.OBD.INTERACTIVE.ACCOUNTLEVEL.FDIC.M'',
      ''From Monthly Metrics:\<newline> Account Levels ($):\<newline> FDIC Program Client Credits:\<newline> $ Bln.''),
     (''USA.OBD.INTERACTIVE.ACCOUNTLEVEL.CREDITSATBROKER.M'',
      ''From Monthly Metrics:\<newline> Account Levels ($):\<newline> Client Credits Held at Broker:\<newline> $ Bln.''),
     (''USA.OBD.INTERACTIVE.ACCOUNTLEVEL.CREDITSTOTAL.M'',
      ''From Monthly Metrics:\<newline> Account Levels ($):\<newline> Client Credits (Total):\<newline> $ Bln.''),
     (''USA.OBD.INTERACTIVE.ACCOUNTLEVEL.MARGINLOANS.M'',
      ''From Monthly Metrics:\<newline> Account Levels ($):\<newline> Client Margin Loans:\<newline> $ Bln.''),
     (''USA.OBD.INTERACTIVE.ACCOUNTLEVEL.CASH.M'',
      ''From Monthly Metrics:\<newline> Account Levels ($):\<newline> Cash as % of Assets:\<newline> %''),
     (''USA.OBD.INTERACTIVE.AVGCOMMISSION.STOCK.M'',
      ''From Press Release:\<newline> Average Commission per Cleared Order:\<newline> Stocks:\<newline> $''),
     (''USA.OBD.INTERACTIVE.AVGCOMMISSION.EQUITYOPTIONS.M'',
      ''From Press Release:\<newline> Average Commission per Cleared Order:\<newline> Equity Options:\<newline> $''),
     (''USA.OBD.INTERACTIVE.AVGCOMMISSION.FUTURES.M'',
      ''From Press Release:\<newline> Average Commission per Cleared Order:\<newline> Futures:\<newline> $''),
     (''USA.OBD.INTERACTIVE.AVGORDER.STOCK.M'',
      ''From Press Release:\<newline> Average Order Size:\<newline> Stocks:\<newline> # shares''),
     (''USA.OBD.INTERACTIVE.AVGORDER.EQUITYOPTIONS.M'',
      ''From Press Release:\<newline> Average Order Size:\<newline> Equity Options:\<newline> # contracts''),
     (''USA.OBD.INTERACTIVE.AVGORDER.FUTURES.M'',
      ''From Press Release:\<newline> Average Order Size:\<newline> Futures:\<newline> # contracts'')]"

text \<open>
  An entry of \<open>MAPPING_CONFIG\<close>: \<open>{'source_name': n, 'source': 'monthly_brokerage'}\<close> is
  \<open>Monthly n\<close>, and \<open>{'source_name': (product, metric), 'source': 'press_release'}\<close> is
  \<open>Press product metric\<close>.
\<close>

datatype source = Monthly string | Press string string

definition MAPPING_CONFIG :: "(string \<times> source) list" where
  "MAPPING_CONFIG =
    [(''USA.OBD.INTERACTIVE.ACCOUNTS.TOTAL.M'', Monthly ''Total Accounts''),
     (''USA.OBD.INTERACTIVE.ACCOUNTS.NETNEW.M'', Monthly ''Net New Accounts''),
     (''USA.OBD.INTERACTIVE.DARTS.TOTAL.M'', Monthly ''Total Client DARTs''),
     (''USA.OBD.INTERACTIVE.DARTS.CLEARED.M'', Monthly ''Cleared Client DARTs''),
     (''USA.OBD.INTERACTIVE.DARTS.CLEAREDAVG.M'',
        Monthly ''Cleared Avg. DART per Account (Annualized)''),
     (''USA.OBD.INTERACTIVE.TRADING.OPTIONS.M'', Monthly ''Options Contracts''),
     (''USA.OBD.INTERACTIVE.TRADING.FUTURES.M'', Monthly ''Futures Contracts''),
     (''USA.OBD.INTERACTIVE.TRADING.STOCKSHARES.M'', Monthly ''Stock Shares''),
     (''USA.OBD.INTERACTIVE.ACCOUNTLEVEL.EQUITY.M'', Monthly ''Client Equity''),
     (''USA.OBD.INTERACTIVE.ACCOUNTLEVEL.FDIC.M'', Monthly ''FDIC Program Client Credits''),
     (''USA.OBD.INTERACTIVE.ACCOUNTLEVEL.CREDITSATBROKER.M'',
        Monthly ''Client Credits Held at Broker''),
     (''USA.OBD.INTERACTIVE.ACCOUNTLEVEL.CREDITSTOTAL.M'', Monthly ''Client Credits''),
     (''USA.OBD.INTERACTIVE.ACCOUNTLEVEL.MARGINLOANS.M'', Monthly ''Client Margin Loans''),
     (''USA.OBD.INTERACTIVE.ACCOUNTLEVEL.CASH.M'', Monthly ''Cash as % of Assets''),
     (''USA.OBD.INTERACTIVE.AVGCOMMISSION.STOCK.M'', Press ''Stocks'' ''Average Commission''),
     (''USA.OBD.INTERACTIVE.AVGCOMMISSION.EQUITYOPTIONS.M'',
        Press ''Equity Options'' ''Average Commission''),
     (''USA.OBD.INTERACTIVE.AVGCOMMISSION.FUTURES.M'', Press ''Futures'' ''Average Commission''),
     (''USA.OBD.INTERACTIVE.AVGORDER.STOCK.M'', Press ''Stocks'' ''Average Order Size''),
     (''USA.OBD.INTERACTIVE.AVGORDER.EQUITYOPTIONS.M'',
        Press ''Equity Options'' ''Average Order Size''),
     (''USA.OBD.INTERACTIVE.AVGORDER.FUTURES.M'', Press ''Futures'' ''Average Order Size'')]"

definition MONTH_MAPPING :: "(int \<times> string) list" where
  "MONTH_MAPPING =
    [(1, ''Jan''), (2, ''Feb''), (3, ''Mar''), (4, ''Apr''), (5, ''May''), (6, ''Jun''),
     (7, ''Jul''), (8, ''Aug''), (9, ''Sep''), (10, ''Oct''), (11, ''Nov''), (12, ''Dec'')]"

definition VALID_MONTHS :: "string list" where
  "VALID_MONTHS = map snd MONTH_MAPPING"

definition metric_source_names :: "string list" where
  \<comment> \<open>\<open>[v['source_name'] for v in Config.MAPPING_CONFIG.values()
        if v.get('source') == 'monthly_brokerage']\<close>\<close>
  "metric_source_names =
     concat (map (\<lambda>(h, src). case src of Monthly n \<Rightarrow> [n] | Press p t \<Rightarrow> []) MAPPING_CONFIG)"

section \<open>Dictionaries\<close>

text \<open>
  A Python \<open>dict\<close> with string keys is an association list with distinct keys, in
  insertion order: \<open>d[k] = v\<close> replaces the value of a key in place or appends the key.
\<close>

type_synonym 'v dict = "(string \<times> 'v) list"

definition dict_has :: "string \<Rightarrow> 'v dict \<Rightarrow> bool" where
  \<comment> \<open>\<open>k in d\<close>\<close>
  "dict_has k d = (map_of d k \<noteq> None)"

definition dict_set :: "string \<Rightarrow> 'v \<Rightarrow> 'v dict \<Rightarrow> 'v dict" where
  \<comment> \<open>\<open>d[k] = v\<close>\<close>
  "dict_set k v d = AList.update k v d"

definition dict_get :: "'v dict \<Rightarrow> string \<Rightarrow> 'v \<Rightarrow> 'v" where
  \<comment> \<open>\<open>d.get(k, default)\<close>\<close>
  "dict_get d k dflt = (case map_of d k of Some v \<Rightarrow> v | None \<Rightarrow> dflt)"

definition populated :: "string dict \<Rightarrow> bool" where
  \<comment> \<open>what the length of a result counts: distinct metric names, each with a value that
     is not empty\<close>
  "populated d = (distinct (map fst d) \<and> list_all (\<lambda>kv. snd kv \<noteq> []) d)"

fun first_index :: "('a \<Rightarrow> bool) \<Rightarrow> 'a list \<Rightarrow> nat option" where
  \<comment> \<open>the index at which a \<open>for i, x in enumerate(xs)\<close> loop reaches its \<open>break\<close>\<close>
  "first_index P [] = None"
| "first_index P (x # xs) =
     (if P x then Some 0 else map_option Suc (first_index P xs))"

section \<open>Utility functions\<close>

definition clean_numeric_value :: "string \<Rightarrow> string" where
  \<comment> \<open>\<open>re.sub(r'[$,]', '', str(value_str)).strip()\<close>, the empty string for an empty one\<close>
  "clean_numeric_value value_str =
     (if value_str = [] then []
      else strip (filter (\<lambda>c. c \<noteq> CHR ''$'' \<and> c \<noteq> CHR '','') value_str))"

definition validate_date_params :: "string \<Rightarrow> int \<Rightarrow> string option" where
  \<comment> \<open>The source returns \<open>(True, None)\<close>, here \<open>None\<close>, or \<open>(False, message)\<close>, here
     \<open>Some message\<close>. The year arrives as a string, the month as an \<open>int\<close>.\<close>
  "validate_date_params year month_num =
     (case py_int year of
        None \<Rightarrow> Some ''Year and month must be valid integers''
      | Some year_int \<Rightarrow>
          if \<not> (2015 \<le> year_int \<and> year_int \<le> 2030)
          then Some ''Year must be between 2015 and 2030''
          else if \<not> (1 \<le> month_num \<and> month_num \<le> 12)
          then Some ''Month must be between 1 and 12''
          else None)"

definition month_name_to_num :: "(string \<times> int) list" where
  "month_name_to_num =
    [(''january'', 1), (''february'', 2), (''march'', 3), (''april'', 4),
     (''may'', 5), (''june'', 6), (''july'', 7), (''august'', 8),
     (''september'', 9), (''october'', 10), (''november'', 11), (''december'', 12),
     (''jan'', 1), (''feb'', 2), (''mar'', 3), (''apr'', 4),
     (''jun'', 6), (''jul'', 7), (''aug'', 8),
     (''sep'', 9), (''oct'', 10), (''nov'', 11), (''dec'', 12)]"

definition rd :: rx where "rd = Atom Digit"
definition rs :: rx where "rs = Atom Space"
definition rw :: rx where "rw = Atom Wordc"
definition rc :: "char \<Rightarrow> rx" where "rc c = Atom (Lit c)"

text \<open>
  The patterns of \<open>extract_date_from_content\<close>, each with its number of groups:
  \<^verbatim>\<open>(\d{4})\s*%?\s*Change\<close>, \<^verbatim>\<open>ELECTRONIC\s+BROKERAGE.*?(\d{4})\<close>,
  \<^verbatim>\<open>for\s+(\w+)\s+(\d{4})\<close>, \<^verbatim>\<open>(\w+)\s+(\d{4}),?\s*includes\<close>,
  \<^verbatim>\<open>(\w+)\s+\d+,\s+(\d{4})\<close>, \<^verbatim>\<open>metrics\s+for\s+(\w+)\<close>,
  \<^verbatim>\<open>performance\s+metrics\s+for\s+(\w+)\<close>, \<^verbatim>\<open>(\w+)\s+(\d{4})\<close>.
\<close>

definition date_patterns :: "(rx \<times> nat) list" where
  "date_patterns =
    [(seqs [Grp 1 (rep4 rd), Star rs, Opt (rc (CHR ''%'')), Star rs, lit ''Change''], 1),
     (seqs [lit ''ELECTRONIC'', Plus rs, lit ''BROKERAGE'', LazyStar (Atom Dot),
            Grp 1 (rep4 rd)], 1),
     (seqs [lit ''for'', Plus rs, Grp 1 (Plus rw), Plus rs, Grp 2 (rep4 rd)], 2),
     (seqs [Grp 1 (Plus rw), Plus rs, Grp 2 (rep4 rd), Opt (rc (CHR '','')), Star rs,
            lit ''includes''], 2),
     (seqs [Grp 1 (Plus rw), Plus rs, Plus rd, rc (CHR '',''), Plus rs, Grp 2 (rep4 rd)], 2),
     (seqs [lit ''metrics'', Plus rs, lit ''for'', Plus rs, Grp 1 (Plus rw)], 1),
     (seqs [lit ''performance'', Plus rs, lit ''metrics'', Plus rs, lit ''for'', Plus rs,
            Grp 1 (Plus rw)], 1),
     (seqs [Grp 1 (Plus rw), Plus rs, Grp 2 (rep4 rd)], 2)]"

definition groups :: "rmatch \<Rightarrow> nat \<Rightarrow> string list" where
  \<comment> \<open>\<open>match.groups()\<close> of a pattern with n groups, all of which take part in a match\<close>
  "groups m n = map (group m) [1..<Suc n]"

definition date_of_groups :: "string list \<Rightarrow> (int \<times> int) option" where
  \<comment> \<open>The body of the loop over the matches: \<open>Some (year, month)\<close> where the source
     returns, \<open>None\<close> where it goes on to the next match. With a single group the source
     assigns the local \<open>year\<close> and continues; nothing reads that variable afterwards.\<close>
  "date_of_groups gs =
     (case gs of
        [g] \<Rightarrow> None
      | [group1, group2] \<Rightarrow>
          if str_isdigit group1 \<and> length group1 = 4
          then (case map_of month_name_to_num (lower group2) of
                  Some month \<Rightarrow> Some (int_of_digits group1, month)
                | None \<Rightarrow> None)
          else if str_isdigit group2 \<and> length group2 = 4
          then (case map_of month_name_to_num (lower group1) of
                  Some month \<Rightarrow> Some (int_of_digits group2, month)
                | None \<Rightarrow> None)
          else None
      | _ \<Rightarrow> None)"

fun first_some :: "('a \<Rightarrow> 'b option) \<Rightarrow> 'a list \<Rightarrow> 'b option" where
  \<comment> \<open>a \<open>for\<close> loop that returns from its first iteration that has a result\<close>
  "first_some f [] = None"
| "first_some f (x # xs) = (case f x of Some y \<Rightarrow> Some y | None \<Rightarrow> first_some f xs)"

definition extract_date_from_content :: "string \<Rightarrow> int option \<times> int option" where
  \<comment> \<open>returns \<open>(year, month)\<close>; the source's \<open>None, None\<close> is \<open>(None, None)\<close>\<close>
  "extract_date_from_content text =
     (let text_lower = lower text in
      case first_some
             (\<lambda>(pattern, n).
                first_some (\<lambda>m. date_of_groups (groups m n)) (re_finditer True pattern text_lower))
             date_patterns of
        Some (year, month) \<Rightarrow> (Some year, Some month)
      | None \<Rightarrow> (None, None))"

definition month_order :: "string list" where
  "month_order = [''Jan'', ''Feb'', ''Mar'', ''Apr'', ''May'', ''Jun'',
                  ''Jul'', ''Aug'', ''Sep'', ''Oct'', ''Nov'', ''Dec'']"

definition numeric_run :: rx where
  \<comment> \<open>\<^verbatim>\<open>[\d,]+\.?\d*\<close>\<close>
  "numeric_run = seqs [Plus (Atom (OneOf [Digit, Lit (CHR '','')])), Opt (rc (CHR ''.'')), Star rd]"

definition detect_latest_month_from_data :: "string \<Rightarrow> int \<Rightarrow> int option" where
  "detect_latest_month_from_data text year =
     (let lines = split_on (CHR 0x0A) text in
      case find (\<lambda>line. list_all (\<lambda>month. str_in month line) [''Jan'', ''Feb'', ''Mar'']
                         \<and> str_in ''Aug'' line) lines of
        None \<Rightarrow> None
      | Some month_header_line \<Rightarrow>
          if month_header_line = [] then None
          else
            (case find (\<lambda>line. \<not> list_ex (\<lambda>month. str_in month line) (take 3 month_order)
                               \<and> list_ex isdigit line
                               \<and> 8 \<le> length (re_finditer False numeric_run line)) lines of
               None \<Rightarrow> None
             | Some line \<Rightarrow>
                 (let numeric_parts = re_finditer False numeric_run line;
                      months_with_data = take (length numeric_parts) month_order
                  in if months_with_data = [] then None
                     else (case first_index (\<lambda>m. m = last months_with_data) month_order of
                             Some i \<Rightarrow> Some (int i + 1)
                           | None \<Rightarrow> None))))"

section \<open>Documents\<close>

text \<open>
  What the document access adapter (\<open>pdfplumber\<close>) hands to the parser. A page gives its
  text (\<open>extract_text()\<close>, which may be \<open>None\<close>), its positioned words
  (\<open>extract_words\<close>: \<open>text\<close>, \<open>x0\<close>, \<open>top\<close>) and its tables (\<open>extract_tables()\<close>:
  rows of cells, a cell a string or \<open>None\<close>). Coordinates are rational numbers here.
  Opening a document either raises, with a message, or yields the pages: a document
  argument is \<open>Inl message\<close> or \<open>Inr pages\<close>. Reading an open document does not raise.
\<close>

record word =
  w_text :: string
  w_x0 :: rat
  w_top :: rat

record page =
  extract_text :: "string option"
  extract_words :: "word list"
  extract_tables :: "string option list list list"

type_synonym pdf = "page list"

type_synonym document = "string + pdf"

text \<open>
  The result of a parser: \<open>{"Error": message}\<close> is \<open>Inl message\<close>; any other
  dictionary is \<open>Inr\<close> of it. No metric is named \<open>Error\<close>, so the test
  \<open>"Error" in result\<close> is \<open>isl result\<close>.
\<close>

type_synonym result = "string + string dict"

section \<open>Strategy 1: text lines\<close>

definition num_token :: rx where
  \<comment> \<open>\<^verbatim>\<open>^[\$]?[\d,]+\.?\d*$\<close>\<close>
  "num_token = seqs [Bol, Opt (Atom (OneOf [Lit (CHR ''$'')])),
                     Plus (Atom (OneOf [Digit, Lit (CHR '','')])),
                     Opt (rc (CHR ''.'')), Star rd, Eol]"

definition num_grouped :: rx where
  \<comment> \<open>\<^verbatim>\<open>\d+(?:,\d+)*\<close>\<close>
  "num_grouped = Seq (Plus rd) (Star (Seq (rc (CHR '','')) (Plus rd)))"

definition num_decimal :: rx where
  \<comment> \<open>\<^verbatim>\<open>\d+(?:,\d+)*\.?\d*\<close>\<close>
  "num_decimal = seqs [num_grouped, Opt (rc (CHR ''.'')), Star rd]"

definition not_digits :: rx where
  \<comment> \<open>\<^verbatim>\<open>[^\d]*\<close>\<close>
  "not_digits = Star (Atom (NoneOf [Digit]))"

definition metric_patterns :: "(string \<times> rx) list" where
  "metric_patterns =
    [(''Total Accounts'', seqs [lit ''Total Accounts'', not_digits, Grp 1 num_decimal]),
     (''Net New Accounts'', seqs [lit ''Net New Accounts'', not_digits, Grp 1 num_decimal]),
     (''Total Client DARTs'', seqs [lit ''Total Client DARTs'', not_digits, Grp 1 num_grouped]),
     (''Cleared Client DARTs'',
        seqs [lit ''Cleared Client DARTs'', not_digits, Grp 1 num_grouped]),
     (''Options Contracts'', seqs [lit ''Options Contracts'', not_digits, Grp 1 num_grouped]),
     (''Futures Contracts'', seqs [lit ''Futures Contracts'', not_digits, Grp 1 num_grouped]),
     (''Stock Shares'', seqs [lit ''Stock Shares'', not_digits, Grp 1 num_grouped]),
     (''Client Equity'',
        seqs [lit ''Client Equity'', not_digits, Opt (rc (CHR ''$'')), Grp 1 num_decimal]),
     (''FDIC Program Client Credits'',
        seqs [lit ''FDIC Program Client Credits'', not_digits, Opt (rc (CHR ''$'')),
              Grp 1 num_decimal]),
     (''Client Credits Held at Broker'',
        seqs [lit ''Client Credits Held at Broker'', not_digits, Opt (rc (CHR ''$'')),
              Grp 1 num_decimal]),
     (''Client Credits'',
        seqs [lit ''Client Credits'', rc (CHR ''(''), Plus rd, rc (CHR '')''), not_digits,
              Opt (rc (CHR ''$'')), Grp 1 num_decimal]),
     (''Client Margin Loans'',
        seqs [lit ''Client Margin Loans'', not_digits, Opt (rc (CHR ''$'')),
              Grp 1 num_decimal]),
     (''Cash as % of Assets'',
        seqs [lit ''Cash as % of Assets'', not_digits,
              Grp 1 (Seq (Plus rd) (Seq (Opt (rc (CHR ''.''))) (Star rd))),
              Opt (rc (CHR ''%''))])]"

definition month_to_index :: "(string \<times> nat) list" where
  "month_to_index =
    [(''Jan'', 0), (''Feb'', 1), (''Mar'', 2), (''Apr'', 3), (''May'', 4), (''Jun'', 5),
     (''Jul'', 6), (''Aug'', 7), (''Sep'', 8), (''Oct'', 9), (''Nov'', 10), (''Dec'', 11)]"

definition full_text_of :: "pdf \<Rightarrow> string" where
  \<comment> \<open>the loop that builds \<open>full_text\<close>: every page with text adds it and a newline\<close>
  "full_text_of pages =
     concat (map (\<lambda>p. case extract_text p of
                          None \<Rightarrow> []
                        | Some page_text \<Rightarrow> if page_text = [] then [] else page_text @ [CHR 0x0A])
                 pages)"

definition is_header_line :: "string \<Rightarrow> string \<Rightarrow> bool" where
  \<comment> \<open>\<open>all(month in line for month in ['Jan', 'Feb', 'Mar']) and target_month_abbr in line\<close>\<close>
  "is_header_line target_month_abbr line =
     (list_all (\<lambda>month. str_in month line) [''Jan'', ''Feb'', ''Mar'']
      \<and> str_in target_month_abbr line)"

definition month_positions_of :: "string list \<Rightarrow> (string \<times> nat) list" where
  \<comment> \<open>for each part of the header, the first month of \<open>VALID_MONTHS\<close> it contains\<close>
  "month_positions_of header_parts =
     concat (map (\<lambda>(i, part). case find (\<lambda>month. str_in month part) VALID_MONTHS of
                                  Some month \<Rightarrow> [(month, i)]
                                | None \<Rightarrow> [])
                 (zip [0..<length header_parts] header_parts))"

definition numeric_parts_of :: "string \<Rightarrow> string list" where
  \<comment> \<open>the tokens of a line that look numeric, without \<open>$\<close> and commas\<close>
  "numeric_parts_of combined_line =
     map (\<lambda>part. replace '','' [] (replace ''$'' [] part))
         (filter (\<lambda>part. re_match False num_token part \<noteq> None) (split_ws combined_line))"

definition column_value :: "nat \<Rightarrow> string \<Rightarrow> string option" where
  \<comment> \<open>The value a matching line contributes: the numeric token at the target index,
     cleaned; \<open>None\<close> where the source stores nothing. The source has this code twice, for
     the catalogue of patterns and for the annualized metric.\<close>
  "column_value target_month_idx combined_line =
     (let numeric_parts = numeric_parts_of combined_line in
      if numeric_parts \<noteq> [] \<and> target_month_idx < length numeric_parts
      then (let v = clean_numeric_value (numeric_parts ! target_month_idx)
            in if v \<noteq> [] then Some v else None)
      else None)"

definition metric_step :: "nat \<Rightarrow> string \<Rightarrow> string dict \<Rightarrow> string \<times> rx \<Rightarrow> string dict" where
  \<comment> \<open>one iteration of \<open>for metric_name, pattern in metric_patterns.items()\<close>\<close>
  "metric_step target_month_idx combined_line extracted_data mp =
     (case mp of (metric_name, pattern) \<Rightarrow>
        if dict_has metric_name extracted_data then extracted_data
        else if re_search True pattern combined_line \<noteq> None
        then (case column_value target_month_idx combined_line of
                Some v \<Rightarrow> dict_set metric_name v extracted_data
              | None \<Rightarrow> extracted_data)
        else extracted_data)"

definition line_step :: "string list \<Rightarrow> nat \<Rightarrow> string dict \<Rightarrow> nat \<Rightarrow> string dict" where
  \<comment> \<open>one iteration of the loop over the lines after the header\<close>
  "line_step lines target_month_idx extracted_data line_idx =
     (let line = strip (lines ! line_idx) in
      if line = [] then extracted_data
      else
        (let combined_line =
               (if line_idx + 1 < length lines
                then (let next_line = strip (lines ! (line_idx + 1)) in
                      if next_line \<noteq> []
                         \<and> (str_in ''Annualized'' next_line \<or> length (split_ws line) < 3)
                      then line @ '' '' @ next_line
                      else line)
                else line);
             found = foldl (metric_step target_month_idx combined_line) extracted_data
                           metric_patterns
         in if (str_in ''Cleared Avg. DART per Account'' line \<or> str_in ''Annualized'' line)
               \<and> \<not> dict_has ''Cleared Avg. DART per Account (Annualized)'' found
            then (case column_value target_month_idx combined_line of
                    Some v \<Rightarrow> dict_set ''Cleared Avg. DART per Account (Annualized)'' v found
                  | None \<Rightarrow> found)
            else found))"

definition parse_using_text_extraction :: "pdf \<Rightarrow> string \<Rightarrow> string \<Rightarrow> result" where
  "parse_using_text_extraction pages target_year target_month_abbr =
     (let full_text = full_text_of pages in
      if strip full_text = [] then Inl ''No text extracted from PDF''
      else if \<not> str_in target_year full_text
      then Inl (''Target year '' @ target_year @ '' not found in PDF'')
      else
        (let lines = split_on (CHR 0x0A) full_text in
         case first_index (is_header_line target_month_abbr) lines of
           None \<Rightarrow> Inl (''Could not find header line with '' @ target_month_abbr)
         | Some header_line_idx \<Rightarrow>
             (let header_line = lines ! header_line_idx;
                  month_positions = month_positions_of (split_ws header_line)
              in if \<not> list_ex (\<lambda>(month, i). month = target_month_abbr) month_positions
                 then Inl (''Could not locate '' @ target_month_abbr @ '' in header'')
                 else
                   (case map_of month_to_index target_month_abbr of
                      None \<Rightarrow> Inl (''Unsupported month: '' @ target_month_abbr)
                    | Some target_month_idx \<Rightarrow>
                        Inr (foldl (line_step lines target_month_idx) []
                               [header_line_idx + 1 ..<
                                  min (header_line_idx + 25) (length lines)])))))"

section \<open>Strategy 2: coordinates\<close>

definition py_round :: "rat \<Rightarrow> int" where
  \<comment> \<open>\<open>round(x)\<close>: to the nearest integer, a tie to the even one\<close>
  "py_round x =
     (let f = \<lfloor>x\<rfloor>; d = x - of_int f in
      if d < 1 / 2 then f
      else if 1 / 2 < d then f + 1
      else if even f then f else f + 1)"

definition numeric_pattern :: rx where
  \<comment> \<open>\<^verbatim>\<open>^[$\d,.]+$\<close>\<close>
  "numeric_pattern =
     seqs [Bol, Plus (Atom (OneOf [Lit (CHR ''$''), Digit, Lit (CHR '',''), Lit (CHR ''.'')])),
           Eol]"

fun column_bounds :: "string \<Rightarrow> word list \<Rightarrow> rat \<times> rat option" where
  \<comment> \<open>The loop over the sorted month headers, up to its \<open>break\<close>: the start and the end
     of the target column. They begin as \<open>-1\<close> and \<open>float('inf')\<close>, the latter \<open>None\<close>.\<close>
  "column_bounds target_month_abbr [] = (- 1, None)"
| "column_bounds target_month_abbr (header # rest) =
     (if w_text header = target_month_abbr
      then (w_x0 header - 8, (case rest of [] \<Rightarrow> None | nxt # _ \<Rightarrow> Some (w_x0 nxt - 8)))
      else column_bounds target_month_abbr rest)"

definition group_rows :: "word list \<Rightarrow> (int \<times> word list) list" where
  \<comment> \<open>the dictionary \<open>rows\<close>, keyed by \<open>round(w["top"] / 3) * 3\<close>, in insertion order\<close>
  "group_rows words =
     foldl (\<lambda>rows w.
              (let row_key = py_round (w_top w / 3) * 3 in
               case map_of rows row_key of
                 None \<Rightarrow> rows @ [(row_key, [w])]
               | Some ws \<Rightarrow> AList.update row_key (ws @ [w]) rows))
           [] words"

definition significant_words :: "string \<Rightarrow> string list" where
  \<comment> \<open>the words of a metric name longer than three characters\<close>
  "significant_words metric_name = filter (\<lambda>word. 3 < length word) (split_ws metric_name)"

definition coord_row_step ::
  "rat \<Rightarrow> rat option \<Rightarrow> string dict \<Rightarrow> word list \<Rightarrow> string dict" where
  \<comment> \<open>one iteration of \<open>for y_pos, row_words in rows.items()\<close>\<close>
  "coord_row_step target_col_start target_col_end extracted_data row_words =
     (let row_text = lower (join '' '' (map w_text row_words)) in
      foldl (\<lambda>d metric_name.
               if list_ex (\<lambda>word. str_in word row_text) (significant_words (lower metric_name))
               then (case filter (\<lambda>w. re_match False numeric_pattern (w_text w) \<noteq> None
                                       \<and> target_col_start \<le> w_x0 w
                                       \<and> (case target_col_end of
                                             None \<Rightarrow> True
                                           | Some e \<Rightarrow> w_x0 w < e))
                                 row_words of
                       [] \<Rightarrow> d
                     | nw # _ \<Rightarrow>
                         (let v = clean_numeric_value (w_text nw)
                          in if v \<noteq> [] then dict_set metric_name v d else d))
               else d)
            extracted_data metric_source_names)"

definition parse_using_coordinates :: "pdf \<Rightarrow> string \<Rightarrow> string \<Rightarrow> result" where
  "parse_using_coordinates pages target_year target_month_abbr =
     (case pages of
        [] \<Rightarrow> Inl ''Coordinate extraction failed: list index out of range''
      | page # _ \<Rightarrow>
          (let words = extract_words page in
           if words = [] then Inl ''No words extracted from PDF''
           else
             (case find (\<lambda>w. str_in target_year (w_text w)) words of
                None \<Rightarrow> Inl (''Year '' @ target_year @ '' not found in word coordinates'')
              | Some year_header_word \<Rightarrow>
                  (let month_headers =
                         sort_key w_x0
                           (filter (\<lambda>w. w_text w \<in> set VALID_MONTHS
                                         \<and> w_top year_header_word - 15 < w_top w) words)
                   in if length month_headers < 3
                      then Inl (''Insufficient month headers found: ''
                                @ str_of_int (int (length month_headers)))
                      else
                        (case column_bounds target_month_abbr month_headers of
                           (target_col_start, target_col_end) \<Rightarrow>
                             if target_col_start = - 1
                             then Inl (''Could not find column boundaries for ''
                                       @ target_month_abbr)
                             else Inr (foldl (coord_row_step target_col_start target_col_end) []
                                         (map snd (group_rows words))))))))"

section \<open>Strategy 3: tables\<close>

definition num_only :: rx where
  \<comment> \<open>\<^verbatim>\<open>^\d+\.?\d*$\<close>\<close>
  "num_only = seqs [Bol, Plus rd, Opt (rc (CHR ''.'')), Star rd, Eol]"

definition cell_str :: "string option \<Rightarrow> string" where
  \<comment> \<open>\<open>str(cell) if cell else ""\<close>\<close>
  "cell_str cell = (case cell of None \<Rightarrow> [] | Some s \<Rightarrow> s)"

definition is_header_row :: "string option list \<Rightarrow> bool" where
  \<comment> \<open>\<open>row and any(month in str(cell) for cell in row if cell
                    for month in Config.VALID_MONTHS)\<close>\<close>
  "is_header_row row =
     (row \<noteq> [] \<and> list_ex (\<lambda>cell. cell_str cell \<noteq> []
                                \<and> list_ex (\<lambda>month. str_in month (cell_str cell)) VALID_MONTHS)
                          row)"

definition target_column :: "string \<Rightarrow> string option list \<Rightarrow> nat option" where
  \<comment> \<open>the first column of the header row whose cell contains the target abbreviation;
     \<open>None\<close> where the source leaves \<open>target_month_col\<close> at \<open>-1\<close>\<close>
  "target_column target_month_abbr row =
     first_index (\<lambda>cell. cell_str cell \<noteq> [] \<and> str_in target_month_abbr (cell_str cell)) row"

definition table_row_step :: "nat \<Rightarrow> string dict \<Rightarrow> string option list \<Rightarrow> string dict" where
  \<comment> \<open>one iteration of the loop over the rows below the header\<close>
  "table_row_step target_month_col extracted_data row =
     (if row = [] \<or> length row \<le> target_month_col then extracted_data
      else
        (let metric_cell = cell_str (row ! 0);
             value_cell = cell_str (row ! target_month_col)
         in if metric_cell = [] \<or> value_cell = [] then extracted_data
            else
              foldl (\<lambda>d metric_name.
                       if list_ex (\<lambda>word. str_in (lower word) (lower metric_cell))
                                  (significant_words metric_name)
                       then (let clean_value = clean_numeric_value value_cell
                             in if clean_value \<noteq> [] \<and> re_match False num_only clean_value \<noteq> None
                                then dict_set metric_name clean_value d
                                else d)
                       else d)
                    extracted_data metric_source_names))"

definition table_step :: "string \<Rightarrow> string dict \<Rightarrow> string option list list \<Rightarrow> string dict" where
  \<comment> \<open>one iteration of \<open>for table_idx, table in enumerate(tables)\<close>\<close>
  "table_step target_month_abbr extracted_data table =
     (if table = [] \<or> length table < 2 then extracted_data
      else
        (case first_index is_header_row table of
           None \<Rightarrow> extracted_data
         | Some header_row_idx \<Rightarrow>
             (case target_column target_month_abbr (table ! header_row_idx) of
                None \<Rightarrow> extracted_data
              | Some target_month_col \<Rightarrow>
                  foldl (table_row_step target_month_col) extracted_data
                        (drop (header_row_idx + 1) table))))"

definition parse_using_table_extraction :: "pdf \<Rightarrow> string \<Rightarrow> string \<Rightarrow> result" where
  "parse_using_table_extraction pages target_year target_month_abbr =
     (case pages of
        [] \<Rightarrow> Inl ''Table extraction failed: list index out of range''
      | page # _ \<Rightarrow>
          (let tables = extract_tables page in
           if tables = [] then Inl ''No tables found in PDF''
           else Inr (foldl (table_step target_month_abbr) [] tables)))"

section \<open>The tabular engine\<close>

definition sufficient :: "result \<Rightarrow> bool" where
  \<comment> \<open>\<open>result and "Error" not in result and len(result) >= 5\<close>\<close>
  "sufficient r = (case r of Inl e \<Rightarrow> False | Inr d \<Rightarrow> d \<noteq> [] \<and> 5 \<le> length d)"

definition accepted :: "result \<Rightarrow> bool" where
  \<comment> \<open>\<open>result and "Error" not in result\<close>\<close>
  "accepted r = (case r of Inl e \<Rightarrow> False | Inr d \<Rightarrow> d \<noteq> [])"

definition parse_monthly_brokerage_data :: "document \<Rightarrow> string \<Rightarrow> int \<Rightarrow> result" where
  "parse_monthly_brokerage_data doc target_year target_month_num =
     (case map_of MONTH_MAPPING target_month_num of
        None \<Rightarrow> Inl (''Invalid target month number: '' @ str_of_int target_month_num)
      | Some target_month_abbr \<Rightarrow>
          if target_month_abbr = []
          then Inl (''Invalid target month number: '' @ str_of_int target_month_num)
          else
            (case validate_date_params target_year target_month_num of
               Some error_msg \<Rightarrow> Inl error_msg
             | None \<Rightarrow>
                 (case doc of
                    Inl e \<Rightarrow> Inl (''PDF processing failed: '' @ e)
                  | Inr pages \<Rightarrow>
                      if pages = [] then Inl ''PDF has no pages''
                      else
                        (let result = parse_using_text_extraction pages target_year
                                        target_month_abbr
                         in if sufficient result then result
                            else
                              (let result = parse_using_coordinates pages target_year
                                              target_month_abbr
                               in if sufficient result then result
                                  else
                                    (let result = parse_using_table_extraction pages target_year
                                                    target_month_abbr
                                     in if accepted result then result
                                        else Inl ''All parsing strategies failed to extract sufficient data''))))))"

section \<open>The narrative engine\<close>

definition digits_commas :: rx where
  \<comment> \<open>\<^verbatim>\<open>[\d,]+\<close>\<close>
  "digits_commas = Plus (Atom (OneOf [Digit, Lit (CHR '','')]))"

definition digits_dots :: rx where
  \<comment> \<open>\<^verbatim>\<open>[\d.]+\<close>\<close>
  "digits_dots = Plus (Atom (OneOf [Digit, Lit (CHR ''.'')]))"

definition plain_decimal :: rx where
  \<comment> \<open>\<^verbatim>\<open>\d+\.?\d*\<close>\<close>
  "plain_decimal = seqs [Plus rd, Opt (rc (CHR ''.'')), Star rd]"

text \<open>
  The primary patterns:
  \<^verbatim>\<open>Stocks\s+([\d,]+\s+shares)\s+\$([\d.]+)\<close>,
  \<^verbatim>\<open>Equity\s+Options\s+([\d.]+\s+contracts)\s+\$([\d.]+)\<close>,
  \<^verbatim>\<open>Futures\s+and\s+Future\s+Options\s+([\d.]+\s+contracts)\s+\$([\d.]+)\<close>.
\<close>

definition primary_patterns :: "(string \<times> rx) list" where
  "primary_patterns =
    [(''Stocks'',
        seqs [lit ''Stocks'', Plus rs, Grp 1 (seqs [digits_commas, Plus rs, lit ''shares'']),
              Plus rs, rc (CHR ''$''), Grp 2 digits_dots]),
     (''Equity Options'',
        seqs [lit ''Equity'', Plus rs, lit ''Options'', Plus rs,
              Grp 1 (seqs [digits_dots, Plus rs, lit ''contracts'']),
              Plus rs, rc (CHR ''$''), Grp 2 digits_dots]),
     (''Futures'',
        seqs [lit ''Futures'', Plus rs, lit ''and'', Plus rs, lit ''Future'', Plus rs,
              lit ''Options'', Plus rs,
              Grp 1 (seqs [digits_dots, Plus rs, lit ''contracts'']),
              Plus rs, rc (CHR ''$''), Grp 2 digits_dots])]"

text \<open>
  The backup patterns:
  \<^verbatim>\<open>Stocks\s+(\d+(?:,\d+)*)\s+shares\s+\$(\d+\.?\d*)\<close>,
  \<^verbatim>\<open>Equity\s+Options\s+(\d+\.?\d*)\s+contracts\s+\$(\d+\.?\d*)\<close>,
  \<^verbatim>\<open>Futures\s+(\d+\.?\d*)\s+contracts\s+\$(\d+\.?\d*)\<close>.
\<close>

definition backup_patterns :: "(string \<times> rx) list" where
  "backup_patterns =
    [(''Stocks'',
        seqs [lit ''Stocks'', Plus rs, Grp 1 num_grouped, Plus rs, lit ''shares'',
              Plus rs, rc (CHR ''$''), Grp 2 plain_decimal]),
     (''Equity Options'',
        seqs [lit ''Equity'', Plus rs, lit ''Options'', Plus rs, Grp 1 plain_decimal, Plus rs,
              lit ''contracts'', Plus rs, rc (CHR ''$''), Grp 2 plain_decimal]),
     (''Futures'',
        seqs [lit ''Futures'', Plus rs, Grp 1 plain_decimal, Plus rs, lit ''contracts'',
              Plus rs, rc (CHR ''$''), Grp 2 plain_decimal])]"

type_synonym press_result = "string + string dict dict"

definition product_step ::
  "bool \<Rightarrow> string \<Rightarrow> string dict dict \<Rightarrow> string \<times> rx \<Rightarrow> string dict dict" where
  \<comment> \<open>one iteration of \<open>for product, pattern in patterns_dict.items()\<close>; the flag says
     that \<open>pattern_name == "backup"\<close>\<close>
  "product_step is_backup report_text data pp =
     (case pp of (product, pattern) \<Rightarrow>
        if dict_has product data then data
        else
          (case re_search True pattern report_text of
             None \<Rightarrow> data
           | Some m \<Rightarrow>
               (let order_size =
                      (if is_backup then replace '','' [] (group m 1)
                       else strip (replace '','' []
                              (replace '' contracts'' [] (replace '' shares'' [] (group m 1)))));
                    commission = (if is_backup then group m 2 else strip (group m 2))
                in dict_set product
                     [(''Average Order Size'', order_size), (''Average Commission'', commission)]
                     data)))"

definition parse_press_release :: "document \<Rightarrow> press_result" where
  "parse_press_release doc =
     (case doc of
        Inl e \<Rightarrow> Inl (''Press release parsing failed: '' @ e)
      | Inr pages \<Rightarrow>
          (let report_text =
                 join [CHR 0x0A]
                   (map (\<lambda>p. case extract_text p of None \<Rightarrow> [] | Some t \<Rightarrow> t) pages)
           in if strip report_text = []
              then Inl ''No text extracted from press release PDF''
              else Inr (foldl (product_step True report_text)
                          (foldl (product_step False report_text) [] primary_patterns)
                          backup_patterns)))"

section \<open>Floating point\<close>

text \<open>
  The derived field is computed with Python floats: \<open>float(s)\<close>, a comparison with zero,
  a division, a multiplication by 100 and the format \<open>.11f\<close>. The mapping code takes
  these operations as a parameter: \<open>float_of\<close> is \<open>float(s)\<close> (\<open>None\<close> for
  \<open>ValueError\<close>), \<open>positive x\<close> is \<open>x > 0\<close>, \<open>percent c e\<close> is \<open>(c / e) * 100\<close>
  (\<open>None\<close> for \<open>ZeroDivisionError\<close>), and \<open>fmt_11f x\<close> is the format \<open>{x:.11f}\<close>.
  The program is the model at \<open>python_floats\<close>, defined below.
\<close>

record 'f float_ops =
  float_of :: "string \<Rightarrow> 'f option"
  positive :: "'f \<Rightarrow> bool"
  percent :: "'f \<Rightarrow> 'f \<Rightarrow> 'f option"
  fmt_11f :: "'f \<Rightarrow> string"

text \<open>
  A Python float is an IEEE 754 binary64 number. \<open>Finite s m e\<close> is the number
  \<open>(-1)\<^sup>s * m * 2\<^sup>e\<close> with \<open>0 \<le> m\<close> (the sign \<open>s\<close> is \<open>True\<close> for a negative number, and
  a zero keeps its sign); \<open>Infinite s\<close> is an infinity and \<open>NaN\<close> is not-a-number. Every
  operation rounds its exact result to the nearest binary64 number, a tie to the one
  with an even significand. All arithmetic below is on integers.
\<close>

datatype pyfloat = Finite bool int int | Infinite bool | NaN

function bit_length :: "int \<Rightarrow> int" where
  \<comment> \<open>the number of binary digits of a positive number\<close>
  "bit_length n = (if n \<le> 0 then 0 else 1 + bit_length (n div 2))"
  by pat_completeness auto
termination
  by (relation "measure nat") auto

declare bit_length.simps [simp del]

definition pow2 :: "int \<Rightarrow> int" where
  \<comment> \<open>\<open>2\<^sup>k\<close>, and 1 for a negative \<open>k\<close>\<close>
  "pow2 k = 2 ^ nat k"

definition pow10 :: "int \<Rightarrow> int" where
  \<comment> \<open>\<open>10\<^sup>k\<close>, and 1 for a negative \<open>k\<close>\<close>
  "pow10 k = 10 ^ nat k"

definition half_even :: "int \<Rightarrow> int \<Rightarrow> int" where
  \<comment> \<open>\<open>n / d\<close> rounded to the nearest integer, a tie to the even one (\<open>0 \<le> n\<close>, \<open>0 < d\<close>)\<close>
  "half_even n d =
     (let q = n div d; r = n mod d in
      if 2 * r < d then q
      else if d < 2 * r then q + 1
      else if even q then q else q + 1)"

definition round_nearest :: "bool \<Rightarrow> int \<Rightarrow> int \<Rightarrow> pyfloat" where
  \<comment> \<open>The binary64 number nearest to \<open>(-1)\<^sup>s * n / d\<close> (\<open>0 \<le> n\<close>, \<open>0 < d\<close>). The exponent
     \<open>e\<close> is the one that puts \<open>n / (d * 2\<^sup>e)\<close> in \<open>[2\<^sup>5\<^sup>2, 2\<^sup>5\<^sup>3)\<close>, and not less than
     \<open>-1074\<close>, the exponent of the subnormal numbers. A result of \<open>2\<^sup>1\<^sup>0\<^sup>2\<^sup>4\<close> or more
     is an infinity.\<close>
  "round_nearest s n d =
     (if n = 0 then Finite s 0 0
      else
        (let b = bit_length n - bit_length d;
             e0 = max (b - 53) (- 1074);
             e = (if pow2 53 * (d * pow2 e0) \<le> n * pow2 (- e0) then e0 + 1 else e0);
             m = half_even (n * pow2 (- e)) (d * pow2 e)
         in if 971 < e \<or> (e = 971 \<and> m = pow2 53) then Infinite s else Finite s m e))"

definition float_div :: "pyfloat \<Rightarrow> pyfloat \<Rightarrow> pyfloat option" where
  \<comment> \<open>\<open>x / y\<close>; \<open>None\<close> is \<open>ZeroDivisionError\<close>\<close>
  "float_div x y =
     (case y of
        Finite t m2 e2 \<Rightarrow>
          if m2 = 0 then None
          else (case x of
                  Finite s m1 e1 \<Rightarrow>
                    Some (round_nearest (s \<noteq> t) (m1 * pow2 (e1 - e2)) (m2 * pow2 (e2 - e1)))
                | Infinite s \<Rightarrow> Some (Infinite (s \<noteq> t))
                | NaN \<Rightarrow> Some NaN)
      | Infinite t \<Rightarrow>
          (case x of
             Finite s m1 e1 \<Rightarrow> Some (Finite (s \<noteq> t) 0 0)
           | Infinite s \<Rightarrow> Some NaN
           | NaN \<Rightarrow> Some NaN)
      | NaN \<Rightarrow> Some NaN)"

definition float_mul :: "pyfloat \<Rightarrow> pyfloat \<Rightarrow> pyfloat" where
  \<comment> \<open>\<open>x * y\<close>\<close>
  "float_mul x y =
     (case (x, y) of
        (Finite s m1 e1, Finite t m2 e2) \<Rightarrow>
          round_nearest (s \<noteq> t) (m1 * m2 * pow2 (e1 + e2)) (pow2 (- (e1 + e2)))
      | (Finite s m1 e1, Infinite t) \<Rightarrow> if m1 = 0 then NaN else Infinite (s \<noteq> t)
      | (Infinite s, Finite t m2 e2) \<Rightarrow> if m2 = 0 then NaN else Infinite (s \<noteq> t)
      | (Infinite s, Infinite t) \<Rightarrow> Infinite (s \<noteq> t)
      | _ \<Rightarrow> NaN)"

definition float_gt0 :: "pyfloat \<Rightarrow> bool" where
  \<comment> \<open>\<open>x > 0\<close>\<close>
  "float_gt0 x =
     (case x of
        Finite s m e \<Rightarrow> \<not> s \<and> 0 < m
      | Infinite s \<Rightarrow> \<not> s
      | NaN \<Rightarrow> False)"

text \<open>
  \<open>float(s)\<close> on a string: white space around it is dropped; then a sign, and
  \<open>inf\<close>, \<open>infinity\<close> or \<open>nan\<close> in any case, or a decimal number: digits (with single
  underscores between digits) with at most one point and at least one digit, and an
  optional exponent. The value is rounded to the nearest binary64 number.
\<close>

definition split_at :: "(char \<Rightarrow> bool) \<Rightarrow> string \<Rightarrow> string \<times> string option" where
  \<comment> \<open>the part before the first character with the property, and the part after it\<close>
  "split_at P u =
     (let a = takeWhile (\<lambda>c. \<not> P c) u; r = dropWhile (\<lambda>c. \<not> P c) u
      in (a, if r = [] then None else Some (tl r)))"

definition digits_value :: "string \<Rightarrow> int" where
  "digits_value s = int_of_digits (filter (\<lambda>c. c \<noteq> CHR ''_'') s)"

definition signed :: "string \<Rightarrow> bool \<times> string" where
  \<comment> \<open>an optional sign, and the rest\<close>
  "signed t =
     (case t of
        [] \<Rightarrow> (False, [])
      | c # cs \<Rightarrow> if c = CHR ''-'' then (True, cs)
                  else if c = CHR ''+'' then (False, cs)
                  else (False, t))"

definition decimal_number :: "string \<Rightarrow> (int \<times> int) option" where
  \<comment> \<open>a decimal number without its sign, as \<open>(digits, exponent)\<close>: the value is
     \<open>digits * 10\<^sup>e\<^sup>x\<^sup>p\<^sup>o\<^sup>n\<^sup>e\<^sup>n\<^sup>t\<close>\<close>
  "decimal_number u =
     (case split_at (\<lambda>c. c = CHR ''e'' \<or> c = CHR ''E'') u of
        (mantissa, ex) \<Rightarrow>
          (case split_at (\<lambda>c. c = CHR ''.'') mantissa of
             (ip, fp) \<Rightarrow>
               (let f = (case fp of None \<Rightarrow> [] | Some f \<Rightarrow> f);
                    mantissa_ok =
                      (case fp of
                         None \<Rightarrow> int_digits ip
                       | Some g \<Rightarrow> (ip = [] \<or> int_digits ip) \<and> (g = [] \<or> int_digits g)
                                   \<and> \<not> (ip = [] \<and> g = []));
                    fraction_digits = int (length (filter (\<lambda>c. c \<noteq> CHR ''_'') f))
                in if \<not> mantissa_ok then None
                   else
                     (case ex of
                        None \<Rightarrow> Some (digits_value (ip @ f), - fraction_digits)
                      | Some x \<Rightarrow>
                          (case signed x of
                             (neg, xd) \<Rightarrow>
                               if int_digits xd
                               then Some (digits_value (ip @ f),
                                          (if neg then - digits_value xd else digits_value xd)
                                          - fraction_digits)
                               else None)))))"

definition py_float :: "string \<Rightarrow> pyfloat option" where
  \<comment> \<open>\<open>float(s)\<close>; \<open>None\<close> is \<open>ValueError\<close>\<close>
  "py_float s =
     (case signed (strip s) of
        (neg, u) \<Rightarrow>
          if lower u = ''inf'' \<or> lower u = ''infinity'' then Some (Infinite neg)
          else if lower u = ''nan'' then Some NaN
          else (case decimal_number u of
                  None \<Rightarrow> None
                | Some (digits, x) \<Rightarrow>
                    Some (round_nearest neg (digits * pow10 x) (pow10 (- x)))))"

definition format_11f :: "pyfloat \<Rightarrow> string" where
  \<comment> \<open>the format \<open>{x:.11f}\<close>: the exact value of the float rounded to 11 decimals, a tie
     to the even digit\<close>
  "format_11f x =
     (case x of
        NaN \<Rightarrow> ''nan''
      | Infinite s \<Rightarrow> (if s then ''-inf'' else ''inf'')
      | Finite s m e \<Rightarrow>
          (let q = half_even (m * 100000000000 * pow2 e) (pow2 (- e));
               fp = digits10 (q mod 100000000000)
           in (if s then ''-'' else []) @ digits10 (q div 100000000000) @ ''.''
              @ replicate (11 - length fp) (CHR ''0'') @ fp))"

definition python_floats :: "pyfloat float_ops" where
  "python_floats =
     \<lparr>float_of = py_float, positive = float_gt0,
      percent = (\<lambda>c e. map_option (\<lambda>r. float_mul r (Finite False 100 0)) (float_div c e)),
      fmt_11f = format_11f\<rparr>"

section \<open>Data processing and output\<close>

text \<open>
  The output of \<open>create_csv_output\<close>: the file name and the three rows handed to the CSV
  writer. Writing may fail with \<open>IOError\<close>; whether the file can be written is the
  argument \<open>writable\<close>.
\<close>

record outcome =
  success :: bool
  artifact :: "(string \<times> string list list) option"

definition csv_rows :: "string dict \<Rightarrow> string \<Rightarrow> string list list" where
  \<comment> \<open>\<open>header_row1\<close>, \<open>header_row2\<close> and \<open>data_row\<close>\<close>
  "csv_rows final_data date_str =
     [''Date'' # FINAL_CSV_COLUMNS,
      [] # map (\<lambda>h. dict_get DESCRIPTIVE_HEADERS h []) FINAL_CSV_COLUMNS,
      date_str # map (\<lambda>h. dict_get final_data h []) FINAL_CSV_COLUMNS]"

definition create_csv_output :: "string dict \<Rightarrow> string \<Rightarrow> string \<Rightarrow> bool \<Rightarrow> outcome" where
  "create_csv_output final_data date_str filename writable =
     (if writable
      then \<lparr>success = True, artifact = Some (filename, csv_rows final_data date_str)\<rparr>
      else \<lparr>success = False, artifact = None\<rparr>)"

subsection \<open>The period of a document pair\<close>

definition truthy_str :: "string option \<Rightarrow> bool" where
  \<comment> \<open>the truth value of a variable that holds \<open>None\<close> or a string\<close>
  "truthy_str v = (case v of None \<Rightarrow> False | Some s \<Rightarrow> s \<noteq> [])"

definition truthy_int :: "int option \<Rightarrow> bool" where
  \<comment> \<open>the truth value of a variable that holds \<open>None\<close> or an \<open>int\<close>\<close>
  "truthy_int v = (case v of None \<Rightarrow> False | Some n \<Rightarrow> n \<noteq> 0)"

definition hint_period :: "string option \<Rightarrow> string option \<times> int option" where
  \<comment> \<open>\<open>target_year\<close> and \<open>target_month_num\<close> after the look at the file name's prefix\<close>
  "hint_period date_prefix =
     (case date_prefix of
        None \<Rightarrow> (None, None)
      | Some p \<Rightarrow>
          if p \<noteq> [] \<and> length p = 6 \<and> str_isdigit p
          then (Some (take 4 p), py_int (drop 4 p))
          else (None, None))"

definition document_text :: "document \<Rightarrow> string option" where
  \<comment> \<open>\<open>"\n".join(page.extract_text() or "" for page in pdf.pages)\<close>; \<open>None\<close> where
     opening the document raises\<close>
  "document_text doc =
     (case doc of
        Inl e \<Rightarrow> None
      | Inr pages \<Rightarrow>
          Some (join [CHR 0x0A]
                  (map (\<lambda>p. case extract_text p of None \<Rightarrow> [] | Some t \<Rightarrow> t) pages)))"

definition brokerage_fallback ::
  "document \<Rightarrow> string option \<times> int option \<Rightarrow> string option \<times> int option" where
  \<comment> \<open>the block \<open>Try Monthly Brokerage PDF first\<close>; an exception leaves the period as
     it was\<close>
  "brokerage_fallback brokerage_doc period =
     (case period of (target_year, target_month_num) \<Rightarrow>
        (case document_text brokerage_doc of
           None \<Rightarrow> (target_year, target_month_num)
         | Some brokerage_text \<Rightarrow>
             (case extract_date_from_content brokerage_text of
                (fallback_year, fallback_month) \<Rightarrow>
                  (case fallback_year of
                     None \<Rightarrow> (target_year, target_month_num)
                   | Some y \<Rightarrow>
                       if y = 0 then (target_year, target_month_num)
                       else if \<not> truthy_int fallback_month
                       then (let detected_month = detect_latest_month_from_data brokerage_text y
                             in if truthy_int detected_month
                                then (Some (str_of_int y), detected_month)
                                else (Some (str_of_int y), target_month_num))
                       else (Some (str_of_int y), fallback_month)))))"

definition press_fallback ::
  "document \<Rightarrow> string option \<times> int option \<Rightarrow> string option \<times> int option" where
  \<comment> \<open>the block \<open>Try Press Release PDF if still no date\<close>\<close>
  "press_fallback press_doc period =
     (case period of (target_year, target_month_num) \<Rightarrow>
        (case document_text press_doc of
           None \<Rightarrow> (target_year, target_month_num)
         | Some press_text \<Rightarrow>
             (case extract_date_from_content press_text of
                (fallback_year, fallback_month) \<Rightarrow>
                  (let ty = (if truthy_int fallback_year \<and> \<not> truthy_str target_year
                             then map_option str_of_int fallback_year else target_year);
                       tm = (if truthy_int fallback_month \<and> \<not> truthy_int target_month_num
                             then fallback_month else target_month_num)
                   in (ty, tm)))))"

definition content_inference ::
  "document \<Rightarrow> document \<Rightarrow> string option \<times> int option \<Rightarrow> string option \<times> int option" where
  \<comment> \<open>the block \<open>Fallback: Extract from PDF content\<close>\<close>
  "content_inference brokerage_doc press_doc period =
     (let p1 = brokerage_fallback brokerage_doc period in
      if \<not> truthy_str (fst p1) \<or> \<not> truthy_int (snd p1)
      then press_fallback press_doc p1
      else p1)"

definition final_period :: "string option \<times> int option \<Rightarrow> (string \<times> int) option" where
  \<comment> \<open>the check \<open>Validate final date\<close>: \<open>None\<close> where the source logs that it could not
     determine the year and the month, and returns \<open>False\<close>\<close>
  "final_period period =
     (case period of
        (Some target_year, Some target_month_num) \<Rightarrow>
          if target_year = [] \<or> target_month_num = 0 then None
          else Some (target_year, target_month_num)
      | _ \<Rightarrow> None)"

definition resolve_period ::
  "string option \<Rightarrow> document \<Rightarrow> document \<Rightarrow> (string \<times> int) option" where
  \<comment> \<open>the first part of \<open>process_pdf_pair\<close>: the year (a string) and the month\<close>
  "resolve_period date_prefix brokerage_doc press_doc =
     (let p0 = hint_period date_prefix
      in final_period
           (if \<not> truthy_str (fst p0) \<or> \<not> truthy_int (snd p0)
            then content_inference brokerage_doc press_doc p0
            else p0))"

subsection \<open>Mapping to the output columns\<close>

definition mapped_value :: "string dict \<Rightarrow> string dict dict \<Rightarrow> string \<Rightarrow> string" where
  \<comment> \<open>the value the mapping loop gives to one column\<close>
  "mapped_value brokerage_data press_release_data csv_header =
     (case map_of MAPPING_CONFIG csv_header of
        None \<Rightarrow> []
      | Some (Monthly source_name) \<Rightarrow> dict_get brokerage_data source_name []
      | Some (Press product metric_type) \<Rightarrow>
          dict_get (dict_get press_release_data product []) metric_type [])"

definition map_columns :: "string dict \<Rightarrow> string dict dict \<Rightarrow> string dict" where
  \<comment> \<open>\<open>final_mapped_data\<close> after the loop over \<open>FINAL_CSV_COLUMNS\<close>\<close>
  "map_columns brokerage_data press_release_data =
     foldl (\<lambda>d csv_header.
              dict_set csv_header (mapped_value brokerage_data press_release_data csv_header) d)
           [] FINAL_CSV_COLUMNS"

definition calculate_cash :: "'f float_ops \<Rightarrow> string dict \<Rightarrow> string dict" where
  \<comment> \<open>the block \<open>Calculate Cash as % of Assets\<close>\<close>
  "calculate_cash ops final_mapped_data =
     (let credits_total =
            dict_get final_mapped_data ''USA.OBD.INTERACTIVE.ACCOUNTLEVEL.CREDITSTOTAL.M'' [];
          client_equity =
            dict_get final_mapped_data ''USA.OBD.INTERACTIVE.ACCOUNTLEVEL.EQUITY.M'' []
      in if credits_total \<noteq> [] \<and> client_equity \<noteq> []
         then (case float_of ops (replace '','' [] credits_total) of
                 None \<Rightarrow> final_mapped_data
               | Some credits_val \<Rightarrow>
                   (case float_of ops (replace '','' [] client_equity) of
                      None \<Rightarrow> final_mapped_data
                    | Some equity_val \<Rightarrow>
                        if positive ops equity_val
                        then (case percent ops credits_val equity_val of
                                None \<Rightarrow> final_mapped_data
                              | Some cash_percentage \<Rightarrow>
                                  dict_set ''USA.OBD.INTERACTIVE.ACCOUNTLEVEL.CASH.M''
                                    (fmt_11f ops cash_percentage) final_mapped_data)
                        else final_mapped_data))
         else final_mapped_data)"

definition canonical_record :: "'f float_ops \<Rightarrow> string dict \<Rightarrow> string dict dict \<Rightarrow> string dict" where
  \<comment> \<open>\<open>final_mapped_data\<close> as it is handed to \<open>create_csv_output\<close>\<close>
  "canonical_record ops brokerage_data press_release_data =
     calculate_cash ops (map_columns brokerage_data press_release_data)"

definition process_pdf_pair ::
  "'f float_ops \<Rightarrow> document \<Rightarrow> document \<Rightarrow> string option \<Rightarrow> bool \<Rightarrow> outcome" where
  "process_pdf_pair ops brokerage_doc press_doc date_prefix writable =
     (case resolve_period date_prefix brokerage_doc press_doc of
        None \<Rightarrow> \<lparr>success = False, artifact = None\<rparr>
      | Some (target_year, target_month_num) \<Rightarrow>
          (let brokerage_data =
                 parse_monthly_brokerage_data brokerage_doc target_year target_month_num;
               press_release_data = parse_press_release press_doc
           in case brokerage_data of
                Inl e \<Rightarrow> \<lparr>success = False, artifact = None\<rparr>
              | Inr bd \<Rightarrow>
                  (let pd = (case press_release_data of Inl e \<Rightarrow> [] | Inr d \<Rightarrow> d);
                       final_mapped_data = canonical_record ops bd pd;
                       date_str_for_csv = target_year @ ''-'' @ fmt_02d target_month_num;
                       output_filename =
                         ''IBKR_DATA_OUTPUT_''
                         @ (case date_prefix of None \<Rightarrow> ''None'' | Some p \<Rightarrow> p) @ ''.csv''
                   in create_csv_output final_mapped_data date_str_for_csv output_filename
                        writable)))"

section \<open>Example documents\<close>

definition text_page :: "string \<Rightarrow> page" where
  \<comment> \<open>a page with text only\<close>
  "text_page t = \<lparr>extract_text = Some t, extract_words = [], extract_tables = []\<rparr>"

definition table_page :: "string option list list \<Rightarrow> page" where
  \<comment> \<open>a page with one table, no text and no words\<close>
  "table_page t = \<lparr>extract_text = None, extract_words = [], extract_tables = [t]\<rparr>"

definition blank_page :: page where
  "blank_page = \<lparr>extract_text = None, extract_words = [], extract_tables = []\<rparr>"

definition shares_table :: "string option list list" where
  "shares_table = [[Some ''Metric'', Some ''Jan''], [Some ''Shares'', Some ''7'']]"

definition cash_table :: "string option list list" where
  "cash_table = [[Some ''Metric'', Some ''Jan''], [Some ''Cash'', Some ''2.5'']]"

definition plain_table :: "string option list list" where
  \<comment> \<open>a table without a month in any row\<close>
  "plain_table = [[Some ''a'', Some ''b''], [Some ''c'', Some ''d'']]"

definition header_page :: page where
  \<comment> \<open>a page whose header holds the months January to March, as text, words and table\<close>
  "header_page =
     \<lparr>extract_text = Some ''2025\<newline>Jan Feb Mar\<newline>Stock Shares 5 6 7'',
      extract_words =
        [\<lparr>w_text = ''2025'', w_x0 = 10, w_top = 10\<rparr>,
         \<lparr>w_text = ''Jan'', w_x0 = 100, w_top = 20\<rparr>,
         \<lparr>w_text = ''Feb'', w_x0 = 150, w_top = 20\<rparr>,
         \<lparr>w_text = ''Mar'', w_x0 = 200, w_top = 20\<rparr>,
         \<lparr>w_text = ''Stock'', w_x0 = 10, w_top = 30\<rparr>,
         \<lparr>w_text = ''Shares'', w_x0 = 40, w_top = 30\<rparr>,
         \<lparr>w_text = ''5'', w_x0 = 100, w_top = 30\<rparr>,
         \<lparr>w_text = ''6'', w_x0 = 150, w_top = 30\<rparr>,
         \<lparr>w_text = ''7'', w_x0 = 200, w_top = 30\<rparr>],
      extract_tables =
        [[[Some ''Metric'', Some ''Jan'', Some ''Feb'', Some ''Mar''],
          [Some ''Stock Shares'', Some ''5'', Some ''6'', Some ''7'']]]\<rparr>"

definition year_only_text :: string where
  "year_only_text =
     ''2025 % Change\<newline>Jan Feb Mar Apr May Jun Jul Aug\<newline>Total 1 2 3 4 5 6 7 8''"

section \<open>Facts about the configuration\<close>

lemma month_mapping_none: "map_of MONTH_MAPPING m = None \<longleftrightarrow> m < 1 \<or> 12 < m"
  unfolding MONTH_MAPPING_def by (simp split: if_splits) arith

lemma month_mapping_some:
  assumes "map_of MONTH_MAPPING m = Some abbr"
  shows "abbr \<in> set VALID_MONTHS" and "abbr \<noteq> []" and "1 \<le> m" and "m \<le> 12"
  using assms unfolding VALID_MONTHS_def MONTH_MAPPING_def
  by (auto split: if_splits)

section \<open>An out-of-range period never reaches a strategy\<close>

text \<open>
  Claim C10. For a month number outside 1..12, or a year outside 2015..2030,
  \<open>parse_monthly_brokerage_data\<close> returns an error result: the invalid month number, or
  the year out of range. The result is the same for every document argument, readable or
  not: the period is rejected before the document is opened, and no strategy runs.
\<close>

theorem out_of_range_period_rejected:
  assumes "target_month_num < 1 \<or> 12 < target_month_num
           \<or> (\<exists>y. py_int target_year = Some y \<and> (y < 2015 \<or> 2030 < y))"
  shows "parse_monthly_brokerage_data doc target_year target_month_num =
           Inl (if target_month_num < 1 \<or> 12 < target_month_num
                then ''Invalid target month number: '' @ str_of_int target_month_num
                else ''Year must be between 2015 and 2030'')"
proof (cases "target_month_num < 1 \<or> 12 < target_month_num")
  case True
  then have "map_of MONTH_MAPPING target_month_num = None"
    by (simp add: month_mapping_none)
  with True show ?thesis
    by (simp add: parse_monthly_brokerage_data_def)
next
  case False
  then obtain abbr where a: "map_of MONTH_MAPPING target_month_num = Some abbr"
    using month_mapping_none [of target_month_num] by auto
  then have ne: "abbr \<noteq> []" by (rule month_mapping_some)
  from False assms obtain y where y: "py_int target_year = Some y" "y < 2015 \<or> 2030 < y"
    by auto
  then have "validate_date_params target_year target_month_num
               = Some ''Year must be between 2015 and 2030''"
    by (auto simp: validate_date_params_def)
  with a ne False show ?thesis
    by (simp add: parse_monthly_brokerage_data_def)
qed

theorem out_of_range_period_rejected_witness:
  "((13::int) < 1 \<or> 12 < (13::int)
      \<or> (\<exists>y. py_int ''2025'' = Some y \<and> (y < 2015 \<or> 2030 < y)))
   \<and> parse_monthly_brokerage_data (Inr [blank_page]) ''2025'' 13
       = Inl ''Invalid target month number: 13''
   \<and> parse_monthly_brokerage_data (Inl ''no such file'') ''2031'' 5
       = Inl ''Year must be between 2015 and 2030''"
proof -
  have h: "(13::int) < 1 \<or> 12 < (13::int)
      \<or> (\<exists>y. py_int ''2025'' = Some y \<and> (y < 2015 \<or> 2030 < y))" by simp
  have p: "py_int ''2031'' = Some 2031" by code_simp
  then have k: "(5::int) < 1 \<or> 12 < (5::int)
      \<or> (\<exists>y. py_int ''2031'' = Some y \<and> (y < 2015 \<or> 2030 < y))" by simp
  have s: "str_of_int 13 = ''13''" by code_simp
  from out_of_range_period_rejected [OF h, of "Inr [blank_page]"]
       out_of_range_period_rejected [OF k, of "Inl ''no such file''"] h s
  show ?thesis by simp
qed

section \<open>The cascade of strategies\<close>

lemma sufficient_iff: "sufficient r \<longleftrightarrow> (\<exists>d. r = Inr d \<and> 5 \<le> length d)"
  by (cases r) (auto simp: sufficient_def)

lemma accepted_iff: "accepted r \<longleftrightarrow> (\<exists>d. r = Inr d \<and> d \<noteq> [])"
  by (cases r) (auto simp: accepted_def)

lemma cascade_unfold:
  assumes "map_of MONTH_MAPPING m = Some abbr" and "validate_date_params y m = None"
    and "pages \<noteq> []"
  shows "parse_monthly_brokerage_data (Inr pages) y m =
           (if sufficient (parse_using_text_extraction pages y abbr)
            then parse_using_text_extraction pages y abbr
            else if sufficient (parse_using_coordinates pages y abbr)
            then parse_using_coordinates pages y abbr
            else if accepted (parse_using_table_extraction pages y abbr)
            then parse_using_table_extraction pages y abbr
            else Inl ''All parsing strategies failed to extract sufficient data'')"
  using assms month_mapping_some(2) [OF assms(1)]
  by (simp add: parse_monthly_brokerage_data_def Let_def)

text \<open>
  The length of a strategy's result counts populated metrics: in every result that is not
  an error the metric names are distinct and no value is empty.
\<close>

lemma populated_empty: "populated []"
  by (simp add: populated_def)

lemma populated_set:
  assumes "populated d" and "v \<noteq> []"
  shows "populated (dict_set k v d)"
proof -
  have "set (AList.update k v d) \<subseteq> insert (k, v) (set d)"
    by (induction d) auto
  with assms show ?thesis
    by (auto simp: populated_def dict_set_def distinct_update list_all_iff)
qed

lemma foldl_invariant:
  assumes "P d" and "\<And>d x. P d \<Longrightarrow> P (f d x)"
  shows "P (foldl f d xs)"
  using assms(1) by (induction xs arbitrary: d) (simp_all add: assms(2))

lemma clean_value_populated:
  "populated d \<Longrightarrow>
     populated (let v = clean_numeric_value s in if v \<noteq> [] \<and> c v then dict_set k v d else d)"
  by (simp add: Let_def populated_set)

lemma column_value_populated:
  "populated d \<Longrightarrow>
     populated (case column_value i s of Some v \<Rightarrow> dict_set k v d | None \<Rightarrow> d)"
  by (auto simp: column_value_def Let_def populated_set split: option.splits if_splits)

lemma metric_step_populated: "populated d \<Longrightarrow> populated (metric_step i s d mp)"
  by (cases mp) (simp add: metric_step_def column_value_populated)

lemma line_step_populated: "populated d \<Longrightarrow> populated (line_step lines i d n)"
  unfolding line_step_def Let_def
  by (auto intro!: column_value_populated foldl_invariant [where P = populated]
        metric_step_populated)

lemma coord_row_step_populated: "populated d \<Longrightarrow> populated (coord_row_step a b d ws)"
  unfolding coord_row_step_def Let_def
  by (rule foldl_invariant [where P = populated])
     (auto simp: populated_set split: list.splits)

lemma table_row_step_populated: "populated d \<Longrightarrow> populated (table_row_step c d row)"
  unfolding table_row_step_def Let_def
  by (auto intro!: foldl_invariant [where P = populated] simp: populated_set)

lemma table_step_populated: "populated d \<Longrightarrow> populated (table_step abbr d t)"
  unfolding table_step_def
  by (auto intro!: foldl_invariant [where P = populated] table_row_step_populated
        split: option.splits)

lemma strategy_results_populated:
  "parse_using_text_extraction pages y abbr = Inr d \<Longrightarrow> populated d"
  "parse_using_coordinates pages y abbr = Inr d \<Longrightarrow> populated d"
  "parse_using_table_extraction pages y abbr = Inr d \<Longrightarrow> populated d"
proof -
  assume "parse_using_text_extraction pages y abbr = Inr d"
  then obtain lines i a b where "d = foldl (line_step lines i) [] [a..<b]"
    by (auto simp: parse_using_text_extraction_def Let_def split: if_splits option.splits)
  then show "populated d"
    by (auto intro!: foldl_invariant [where P = populated] line_step_populated populated_empty)
next
  assume "parse_using_coordinates pages y abbr = Inr d"
  then obtain a b rows where "d = foldl (coord_row_step a b) [] rows"
    by (auto simp: parse_using_coordinates_def Let_def
             split: list.splits if_splits option.splits prod.splits)
  then show "populated d"
    by (auto intro!: foldl_invariant [where P = populated] coord_row_step_populated
          populated_empty)
next
  assume "parse_using_table_extraction pages y abbr = Inr d"
  then obtain tables where "d = foldl (table_step abbr) [] tables"
    by (auto simp: parse_using_table_extraction_def Let_def split: list.splits if_splits)
  then show "populated d"
    by (auto intro!: foldl_invariant [where P = populated] table_step_populated
          populated_empty)
qed

lemma valid_2025_1:
  "map_of MONTH_MAPPING 1 = Some ''Jan''" "validate_date_params ''2025'' 1 = None"
  by code_simp+

lemma shares_run:
  "parse_using_text_extraction [table_page shares_table] ''2025'' ''Jan''
     = Inl ''No text extracted from PDF''"
  "parse_using_coordinates [table_page shares_table] ''2025'' ''Jan''
     = Inl ''No words extracted from PDF''"
  "parse_using_table_extraction [table_page shares_table] ''2025'' ''Jan''
     = Inr [(''Stock Shares'', ''7'')]"
  by code_simp+

text \<open>
  Claim C1, as the spec states it, fails: the third strategy's result is accepted only
  when it is not an error and holds at least one metric (an empty dictionary is refused),
  and when no strategy qualifies the engine returns its own fixed error, not the error
  of the last strategy. Below, the table strategy returns the empty dictionary, a
  result that is not an error, and the engine returns the error; and the table strategy
  returns the error \<open>No tables found in PDF\<close>, and the engine returns another one.
\<close>

theorem cascade_counterexample:
  "parse_using_table_extraction [table_page plain_table] ''2025'' ''Jan'' = Inr []
   \<and> parse_monthly_brokerage_data (Inr [table_page plain_table]) ''2025'' 1
     = Inl ''All parsing strategies failed to extract sufficient data''
   \<and> parse_using_table_extraction [blank_page] ''2025'' ''Jan'' = Inl ''No tables found in PDF''
   \<and> parse_monthly_brokerage_data (Inr [blank_page]) ''2025'' 1
     = Inl ''All parsing strategies failed to extract sufficient data''"
  by code_simp

text \<open>
  Claim C1, amended. For a valid period and a document that opens and has a page, the
  engine tries the text-line, the coordinate and the table strategy in this order. It
  returns the result of the first of the first two that is not an error and holds at
  least 5 metrics; failing that, the result of the table strategy if it is not an error
  and holds at least one metric; otherwise the fixed error
  \<open>All parsing strategies failed to extract sufficient data\<close>.
\<close>

theorem cascade_first_sufficient:
  assumes "map_of MONTH_MAPPING m = Some abbr" and "validate_date_params y m = None"
    and "pages \<noteq> []"
    and "r1 = parse_using_text_extraction pages y abbr"
    and "r2 = parse_using_coordinates pages y abbr"
    and "r3 = parse_using_table_extraction pages y abbr"
  shows "parse_monthly_brokerage_data (Inr pages) y m =
           (if \<exists>d. r1 = Inr d \<and> 5 \<le> length d then r1
            else if \<exists>d. r2 = Inr d \<and> 5 \<le> length d then r2
            else if \<exists>d. r3 = Inr d \<and> d \<noteq> [] then r3
            else Inl ''All parsing strategies failed to extract sufficient data'')"
  unfolding cascade_unfold [OF assms(1-3)] assms(4-6) sufficient_iff accepted_iff ..

theorem cascade_first_sufficient_witness:
  "map_of MONTH_MAPPING 1 = Some ''Jan'' \<and> validate_date_params ''2025'' 1 = None
   \<and> [table_page shares_table] \<noteq> []
   \<and> parse_monthly_brokerage_data (Inr [table_page shares_table]) ''2025'' 1
       = Inr [(''Stock Shares'', ''7'')]"
  using cascade_first_sufficient [OF valid_2025_1, of "[table_page shares_table]",
          OF _ refl refl refl] valid_2025_1
  by (simp add: shares_run)

text \<open>
  Claim C3, as the spec states it, fails from right to left: here every strategy returns
  an error or fewer than 5 metrics, and the engine returns the single metric of the
  table strategy, not the all-strategies-failed error.
\<close>

theorem all_failed_counterexample:
  "parse_using_text_extraction [table_page shares_table] ''2025'' ''Jan''
     = Inl ''No text extracted from PDF''
   \<and> parse_using_coordinates [table_page shares_table] ''2025'' ''Jan''
     = Inl ''No words extracted from PDF''
   \<and> parse_using_table_extraction [table_page shares_table] ''2025'' ''Jan''
     = Inr [(''Stock Shares'', ''7'')]
   \<and> parse_monthly_brokerage_data (Inr [table_page shares_table]) ''2025'' 1
     = Inr [(''Stock Shares'', ''7'')]"
  by code_simp

text \<open>
  Claim C3, amended. For a valid period and a document that opens and has a page, the
  all-strategies-failed error is returned if and only if the text-line and the
  coordinate strategy each return an error or fewer than 5 metrics, and the table
  strategy returns an error or no metric at all.
\<close>

theorem all_failed_iff:
  assumes "map_of MONTH_MAPPING m = Some abbr" and "validate_date_params y m = None"
    and "pages \<noteq> []"
    and "r1 = parse_using_text_extraction pages y abbr"
    and "r2 = parse_using_coordinates pages y abbr"
    and "r3 = parse_using_table_extraction pages y abbr"
  shows "parse_monthly_brokerage_data (Inr pages) y m
           = Inl ''All parsing strategies failed to extract sufficient data''
         \<longleftrightarrow> (\<forall>d. r1 = Inr d \<longrightarrow> length d < 5) \<and> (\<forall>d. r2 = Inr d \<longrightarrow> length d < 5)
              \<and> (\<forall>d. r3 = Inr d \<longrightarrow> d = [])"
  unfolding cascade_unfold [OF assms(1-3)] assms(4-6) sufficient_iff accepted_iff
  by (auto simp: not_le)

theorem all_failed_iff_witness:
  "map_of MONTH_MAPPING 1 = Some ''Jan'' \<and> validate_date_params ''2025'' 1 = None
   \<and> [table_page plain_table] \<noteq> []
   \<and> parse_monthly_brokerage_data (Inr [table_page plain_table]) ''2025'' 1
       = Inl ''All parsing strategies failed to extract sufficient data''"
proof -
  have r: "parse_using_text_extraction [table_page plain_table] ''2025'' ''Jan''
             = Inl ''No text extracted from PDF''"
    "parse_using_coordinates [table_page plain_table] ''2025'' ''Jan''
             = Inl ''No words extracted from PDF''"
    "parse_using_table_extraction [table_page plain_table] ''2025'' ''Jan'' = Inr []"
    by code_simp+
  from all_failed_iff [OF valid_2025_1, of "[table_page plain_table]", OF _ refl refl refl]
       valid_2025_1
  show ?thesis by (simp add: r)
qed

section \<open>The emitted record\<close>

lemma dict_get_set:
  "dict_get (dict_set k v d) k' dflt = (if k' = k then v else dict_get d k' dflt)"
  by (simp add: dict_get_def dict_set_def update_conv')

lemma dict_get_fold:
  "dict_get (foldl (\<lambda>d h. dict_set h (f h) d) d0 hs) k dflt
     = (if k \<in> set hs then f k else dict_get d0 k dflt)"
  by (induction hs arbitrary: d0) (auto simp: dict_get_set)

lemma dict_get_empty: "dict_get [] k dflt = dflt"
  by (simp add: dict_get_def)

lemma dict_get_map_columns:
  "dict_get (map_columns bd pd) h [] =
     (if h \<in> set FINAL_CSV_COLUMNS then mapped_value bd pd h else [])"
  unfolding map_columns_def by (simp add: dict_get_fold dict_get_empty)

lemma columns_count: "length FINAL_CSV_COLUMNS = 20"
  by (simp add: FINAL_CSV_COLUMNS_def)

lemma columns_distinct: "distinct FINAL_CSV_COLUMNS"
  by code_simp

lemma calculate_cash_other:
  "h \<noteq> ''USA.OBD.INTERACTIVE.ACCOUNTLEVEL.CASH.M'' \<Longrightarrow>
     dict_get (calculate_cash ops final) h [] = dict_get final h []"
  by (simp add: calculate_cash_def Let_def dict_get_set split: option.splits)

lemma process_pdf_pair_artifact:
  assumes "artifact (process_pdf_pair ops bdoc pdoc date_prefix writable) = Some (filename, rows)"
  obtains y m bd where "resolve_period date_prefix bdoc pdoc = Some (y, m)"
    and "parse_monthly_brokerage_data bdoc y m = Inr bd"
    and "writable"
    and "rows = csv_rows (canonical_record ops bd
                  (case parse_press_release pdoc of Inl e \<Rightarrow> [] | Inr d \<Rightarrow> d))
                  (y @ ''-'' @ fmt_02d m)"
  using assms
  by (auto simp: process_pdf_pair_def create_csv_output_def Let_def
           split: option.splits sum.splits if_splits)

text \<open>
  Claim C6, amended. Every artifact that \<open>process_pdf_pair\<close> emits consists of three
  rows of 21 cells. The first row is \<open>Date\<close> and the 20 distinct column names of
  \<open>FINAL_CSV_COLUMNS\<close>, in that order; the second row is the row of captions. The data
  row is the period string (the year, a dash, the two-digit month, the month in 1..12)
  followed by the 20 fields of the canonical record, the record computed from the
  results of the two engines: the cell under each column name is the field of the record
  of that name, and for every column but the derived cash percentage that field is the
  value the source mapping table gives for the column.
\<close>

theorem emitted_record_shape:
  assumes "artifact (process_pdf_pair ops bdoc pdoc date_prefix writable) = Some (filename, rows)"
  shows "length FINAL_CSV_COLUMNS = 20 \<and> distinct FINAL_CSV_COLUMNS
         \<and> (\<exists>y m bd pd.
               resolve_period date_prefix bdoc pdoc = Some (y, m) \<and> 1 \<le> m \<and> m \<le> 12
               \<and> parse_monthly_brokerage_data bdoc y m = Inr bd
               \<and> pd = (case parse_press_release pdoc of Inl e \<Rightarrow> [] | Inr d \<Rightarrow> d)
               \<and> rows = [''Date'' # FINAL_CSV_COLUMNS,
                         [] # map (\<lambda>h. dict_get DESCRIPTIVE_HEADERS h []) FINAL_CSV_COLUMNS,
                         (y @ ''-'' @ fmt_02d m)
                           # map (\<lambda>h. dict_get (canonical_record ops bd pd) h [])
                               FINAL_CSV_COLUMNS]
               \<and> (\<forall>i < 20. rows ! 0 ! Suc i = FINAL_CSV_COLUMNS ! i
                             \<and> rows ! 2 ! Suc i
                                 = dict_get (canonical_record ops bd pd)
                                     (FINAL_CSV_COLUMNS ! i) [])
               \<and> (\<forall>h \<in> set FINAL_CSV_COLUMNS.
                     h \<noteq> ''USA.OBD.INTERACTIVE.ACCOUNTLEVEL.CASH.M'' \<longrightarrow>
                     dict_get (canonical_record ops bd pd) h [] = mapped_value bd pd h))
         \<and> map length rows = [21, 21, 21]"
proof -
  from assms obtain y m bd where
    r: "resolve_period date_prefix bdoc pdoc = Some (y, m)"
    and b: "parse_monthly_brokerage_data bdoc y m = Inr bd"
    and rows: "rows = csv_rows (canonical_record ops bd
                  (case parse_press_release pdoc of Inl e \<Rightarrow> [] | Inr d \<Rightarrow> d))
                  (y @ ''-'' @ fmt_02d m)"
    by (rule process_pdf_pair_artifact)
  define pd where "pd = (case parse_press_release pdoc of Inl e \<Rightarrow> [] | Inr d \<Rightarrow> d)"
  have "map_of MONTH_MAPPING m \<noteq> None"
    using b by (auto simp: parse_monthly_brokerage_data_def split: option.splits)
  then have m: "1 \<le> m \<and> m \<le> 12"
    by (simp add: month_mapping_none)
  have rows': "rows = [''Date'' # FINAL_CSV_COLUMNS,
                       [] # map (\<lambda>h. dict_get DESCRIPTIVE_HEADERS h []) FINAL_CSV_COLUMNS,
                       (y @ ''-'' @ fmt_02d m)
                         # map (\<lambda>h. dict_get (canonical_record ops bd pd) h [])
                             FINAL_CSV_COLUMNS]"
    unfolding rows pd_def csv_rows_def ..
  have len: "map length rows = [21, 21, 21]"
    unfolding rows' by (simp add: columns_count)
  have cells: "\<forall>i < 20. rows ! 0 ! Suc i = FINAL_CSV_COLUMNS ! i
                 \<and> rows ! 2 ! Suc i
                     = dict_get (canonical_record ops bd pd) (FINAL_CSV_COLUMNS ! i) []"
    unfolding rows' by (simp add: columns_count)
  have fields: "\<forall>h \<in> set FINAL_CSV_COLUMNS.
                  h \<noteq> ''USA.OBD.INTERACTIVE.ACCOUNTLEVEL.CASH.M'' \<longrightarrow>
                  dict_get (canonical_record ops bd pd) h [] = mapped_value bd pd h"
    by (simp add: canonical_record_def calculate_cash_other dict_get_map_columns)
  from r m b rows' cells fields len pd_def columns_count columns_distinct
  show ?thesis by blast
qed

lemma table_period:
  "resolve_period (Some ''202501'') bdoc pdoc = Some (''2025'', 1)"
proof -
  have "hint_period (Some ''202501'') = (Some ''2025'', Some 1)" by code_simp
  then show ?thesis
    by (simp add: resolve_period_def truthy_str_def truthy_int_def final_period_def)
qed

lemma shares_engine:
  "parse_monthly_brokerage_data (Inr [table_page shares_table]) ''2025'' 1
     = Inr [(''Stock Shares'', ''7'')]"
  by code_simp

lemma unreadable_press: "parse_press_release (Inl e) = Inl (''Press release parsing failed: '' @ e)"
  by (simp add: parse_press_release_def)

lemma shares_artifact:
  "artifact (process_pdf_pair ops (Inr [table_page shares_table]) (Inl ''unreadable'')
               (Some ''202501'') True)
     = Some (''IBKR_DATA_OUTPUT_202501.csv'',
             csv_rows (canonical_record ops [(''Stock Shares'', ''7'')] []) (''2025-'' @ fmt_02d 1))"
  by (simp add: process_pdf_pair_def table_period shares_engine unreadable_press
        create_csv_output_def Let_def)

theorem emitted_record_shape_witness:
  "\<exists>rows. artifact (process_pdf_pair python_floats (Inr [table_page shares_table])
                     (Inl ''unreadable'') (Some ''202501'') True)
            = Some (''IBKR_DATA_OUTPUT_202501.csv'', rows)
          \<and> map length rows = [21, 21, 21]"
proof -
  note a = shares_artifact [of python_floats]
  from emitted_record_shape [OF a]
  have "map length (csv_rows (canonical_record python_floats [(''Stock Shares'', ''7'')] [])
                     (''2025-'' @ fmt_02d 1)) = [21, 21, 21]"
    by (elim conjE)
  with a show ?thesis by simp
qed

text \<open>
  Claim C6, as the spec states it, fails on the number of fields: the record has 20
  fields, not 19. Here a run emits its three rows, each of 21 cells, the period and 20
  fields.
\<close>

theorem record_width_counterexample:
  "length FINAL_CSV_COLUMNS = 20
   \<and> map_option (\<lambda>(f, rows). map length rows)
       (artifact (process_pdf_pair python_floats (Inr [table_page shares_table])
                    (Inl ''unreadable'') (Some ''202501'') True))
     = Some [21, 21, 21]"
  by (simp add: shares_artifact csv_rows_def columns_count)

section \<open>Errors of the two engines\<close>

lemma mapped_value_no_press:
  "map_of MAPPING_CONFIG h = Some (Press p t) \<Longrightarrow> mapped_value bd [] h = []"
  by (simp add: mapped_value_def dict_get_empty)

lemma cash_is_monthly:
  "map_of MAPPING_CONFIG ''USA.OBD.INTERACTIVE.ACCOUNTLEVEL.CASH.M''
     = Some (Monthly ''Cash as % of Assets'')"
  by code_simp

lemma narrative_field_empty:
  assumes "map_of MAPPING_CONFIG h = Some (Press p t)"
  shows "dict_get (canonical_record ops bd []) h [] = []"
proof -
  from assms cash_is_monthly have "h \<noteq> ''USA.OBD.INTERACTIVE.ACCOUNTLEVEL.CASH.M''"
    by auto
  then show ?thesis
    using assms
    by (simp add: canonical_record_def calculate_cash_other dict_get_map_columns
          mapped_value_no_press)
qed

lemma narrative_columns:
  "drop 14 FINAL_CSV_COLUMNS =
     [''USA.OBD.INTERACTIVE.AVGCOMMISSION.STOCK.M'',
      ''USA.OBD.INTERACTIVE.AVGCOMMISSION.EQUITYOPTIONS.M'',
      ''USA.OBD.INTERACTIVE.AVGCOMMISSION.FUTURES.M'',
      ''USA.OBD.INTERACTIVE.AVGORDER.STOCK.M'',
      ''USA.OBD.INTERACTIVE.AVGORDER.EQUITYOPTIONS.M'',
      ''USA.OBD.INTERACTIVE.AVGORDER.FUTURES.M'']"
  by (simp add: FINAL_CSV_COLUMNS_def)

lemma narrative_sources:
  "map (map_of MAPPING_CONFIG) (drop 14 FINAL_CSV_COLUMNS) =
     [Some (Press ''Stocks'' ''Average Commission''),
      Some (Press ''Equity Options'' ''Average Commission''),
      Some (Press ''Futures'' ''Average Commission''),
      Some (Press ''Stocks'' ''Average Order Size''),
      Some (Press ''Equity Options'' ''Average Order Size''),
      Some (Press ''Futures'' ''Average Order Size'')]"
  by code_simp

lemma narrative_cells_empty:
  "map (\<lambda>h. dict_get (canonical_record ops bd []) h []) (drop 14 FINAL_CSV_COLUMNS)
     = [[], [], [], [], [], []]"
proof -
  have "\<forall>h \<in> set (drop 14 FINAL_CSV_COLUMNS). \<exists>p t. map_of MAPPING_CONFIG h = Some (Press p t)"
    using narrative_sources unfolding narrative_columns by simp
  then have "\<forall>h \<in> set (drop 14 FINAL_CSV_COLUMNS).
               dict_get (canonical_record ops bd []) h [] = []"
    using narrative_field_empty by blast
  then have "map (\<lambda>h. dict_get (canonical_record ops bd []) h []) (drop 14 FINAL_CSV_COLUMNS)
               = map (\<lambda>h. []) (drop 14 FINAL_CSV_COLUMNS)"
    by (intro map_cong refl) simp
  also have "\<dots> = [[], [], [], [], [], []]"
    by (simp add: narrative_columns)
  finally show ?thesis .
qed

text \<open>
  Claim C5. Once the period of a document pair is resolved: if the brokerage engine
  returns an error, the run fails and no artifact (no record) is produced. If the
  brokerage engine succeeds and the narrative engine returns an error, the run goes on
  with an empty narrative result: the artifact is produced (where the file can be
  written), its record is the one computed from the brokerage data alone, and every
  field that comes from the press release, the last six cells of the data row, is
  empty.
\<close>

theorem engine_error_propagation:
  assumes "resolve_period date_prefix bdoc pdoc = Some (y, m)"
  shows "(isl (parse_monthly_brokerage_data bdoc y m) \<longrightarrow>
            process_pdf_pair ops bdoc pdoc date_prefix writable
              = \<lparr>success = False, artifact = None\<rparr>)
         \<and> (parse_monthly_brokerage_data bdoc y m = Inr bd \<and> isl (parse_press_release pdoc)
               \<and> writable \<longrightarrow>
             (\<exists>filename rows.
                process_pdf_pair ops bdoc pdoc date_prefix writable
                  = \<lparr>success = True, artifact = Some (filename, rows)\<rparr>
                \<and> rows = csv_rows (canonical_record ops bd []) (y @ ''-'' @ fmt_02d m)
                \<and> (\<forall>h p t. map_of MAPPING_CONFIG h = Some (Press p t) \<longrightarrow>
                       dict_get (canonical_record ops bd []) h [] = [])
                \<and> drop 15 (rows ! 2) = [[], [], [], [], [], []]))"
proof (intro conjI)
  show "isl (parse_monthly_brokerage_data bdoc y m) \<longrightarrow>
           process_pdf_pair ops bdoc pdoc date_prefix writable
             = \<lparr>success = False, artifact = None\<rparr>"
    using assms by (auto simp: process_pdf_pair_def isl_def)
next
  have cells: "drop 15 (csv_rows (canonical_record ops bd []) (y @ ''-'' @ fmt_02d m) ! 2)
                 = [[], [], [], [], [], []]"
    using narrative_cells_empty [of ops bd]
    by (simp add: csv_rows_def drop_map)
  show "parse_monthly_brokerage_data bdoc y m = Inr bd \<and> isl (parse_press_release pdoc)
           \<and> writable \<longrightarrow>
           (\<exists>filename rows.
              process_pdf_pair ops bdoc pdoc date_prefix writable
                = \<lparr>success = True, artifact = Some (filename, rows)\<rparr>
              \<and> rows = csv_rows (canonical_record ops bd []) (y @ ''-'' @ fmt_02d m)
              \<and> (\<forall>h p t. map_of MAPPING_CONFIG h = Some (Press p t) \<longrightarrow>
                     dict_get (canonical_record ops bd []) h [] = [])
              \<and> drop 15 (rows ! 2) = [[], [], [], [], [], []])"
    using assms cells narrative_field_empty
    by (auto simp: process_pdf_pair_def isl_def create_csv_output_def Let_def)
qed

lemma blank_engine:
  "parse_monthly_brokerage_data (Inr [blank_page]) ''2025'' 1
     = Inl ''All parsing strategies failed to extract sufficient data''"
  by code_simp

theorem engine_error_propagation_witness:
  "resolve_period (Some ''202501'') (Inr [blank_page]) (Inl ''unreadable'') = Some (''2025'', 1)
   \<and> isl (parse_monthly_brokerage_data (Inr [blank_page]) ''2025'' 1)
   \<and> process_pdf_pair python_floats (Inr [blank_page]) (Inl ''unreadable'') (Some ''202501'') True
       = \<lparr>success = False, artifact = None\<rparr>
   \<and> parse_monthly_brokerage_data (Inr [table_page shares_table]) ''2025'' 1
       = Inr [(''Stock Shares'', ''7'')]
   \<and> isl (parse_press_release (Inl ''unreadable''))
   \<and> (\<exists>filename rows.
         process_pdf_pair python_floats (Inr [table_page shares_table]) (Inl ''unreadable'')
           (Some ''202501'') True
           = \<lparr>success = True, artifact = Some (filename, rows)\<rparr>
         \<and> drop 15 (rows ! 2) = [[], [], [], [], [], []])"
proof -
  have e: "isl (parse_monthly_brokerage_data (Inr [blank_page]) ''2025'' 1)"
    by (simp add: blank_engine)
  have p: "isl (parse_press_release (Inl ''unreadable''))"
    by (simp add: unreadable_press)
  from engine_error_propagation
         [where bdoc = "Inr [blank_page]" and pdoc = "Inl ''unreadable''"
            and ops = python_floats and writable = True, OF table_period]
       e
  have 1: "process_pdf_pair python_floats (Inr [blank_page]) (Inl ''unreadable'')
             (Some ''202501'') True = \<lparr>success = False, artifact = None\<rparr>"
    by blast
  from engine_error_propagation
         [where bdoc = "Inr [table_page shares_table]" and pdoc = "Inl ''unreadable''"
            and bd = "[(''Stock Shares'', ''7'')]" and ops = python_floats and writable = True,
          OF table_period]
       shares_engine p
  have 2: "\<exists>filename rows.
         process_pdf_pair python_floats (Inr [table_page shares_table]) (Inl ''unreadable'')
           (Some ''202501'') True
           = \<lparr>success = True, artifact = Some (filename, rows)\<rparr>
         \<and> drop 15 (rows ! 2) = [[], [], [], [], [], []]"
    by blast
  from 1 2 e p shares_engine table_period show ?thesis by blast
qed

section \<open>The derived cash percentage\<close>

lemma credits_source:
  "map_of MAPPING_CONFIG ''USA.OBD.INTERACTIVE.ACCOUNTLEVEL.CREDITSTOTAL.M''
     = Some (Monthly ''Client Credits'')"
  by code_simp

lemma equity_source:
  "map_of MAPPING_CONFIG ''USA.OBD.INTERACTIVE.ACCOUNTLEVEL.EQUITY.M''
     = Some (Monthly ''Client Equity'')"
  by code_simp

lemma derived_columns:
  "''USA.OBD.INTERACTIVE.ACCOUNTLEVEL.CREDITSTOTAL.M'' \<in> set FINAL_CSV_COLUMNS"
  "''USA.OBD.INTERACTIVE.ACCOUNTLEVEL.EQUITY.M'' \<in> set FINAL_CSV_COLUMNS"
  "''USA.OBD.INTERACTIVE.ACCOUNTLEVEL.CASH.M'' \<in> set FINAL_CSV_COLUMNS"
  by (simp_all add: FINAL_CSV_COLUMNS_def)

lemma mapped_inputs:
  "dict_get (map_columns bd pd) ''USA.OBD.INTERACTIVE.ACCOUNTLEVEL.CREDITSTOTAL.M'' []
     = dict_get bd ''Client Credits'' []"
  "dict_get (map_columns bd pd) ''USA.OBD.INTERACTIVE.ACCOUNTLEVEL.EQUITY.M'' []
     = dict_get bd ''Client Equity'' []"
  "dict_get (map_columns bd pd) ''USA.OBD.INTERACTIVE.ACCOUNTLEVEL.CASH.M'' []
     = dict_get bd ''Cash as % of Assets'' []"
  by (simp_all add: dict_get_map_columns derived_columns mapped_value_def
        credits_source equity_source cash_is_monthly)

lemma positive_divisor: "float_gt0 e \<Longrightarrow> \<exists>q. float_div c e = Some q"
  by (cases e; cases c) (auto simp: float_gt0_def float_div_def)

lemma half_even_nearest:
  assumes "0 < d"
  shows "2 * \<bar>half_even n d * d - n\<bar> \<le> d"
proof -
  define q r where "q = n div d" and "r = n mod d"
  have n: "n = q * d + r" by (simp add: q_def r_def)
  have r: "0 \<le> r" "r < d" using assms by (simp_all add: r_def)
  have s: "(q + 1) * d = q * d + d" by (simp add: algebra_simps)
  consider "2 * r < d" | "d < 2 * r" | "2 * r = d" by linarith
  then show ?thesis
  proof cases
    case 1
    then have "half_even n d = q"
      by (simp add: half_even_def Let_def q_def r_def)
    with n r 1 show ?thesis by simp
  next
    case 2
    then have "half_even n d = q + 1"
      by (simp add: half_even_def Let_def q_def r_def)
    with n r 2 s show ?thesis by simp
  next
    case 3
    then have "half_even n d = q \<or> half_even n d = q + 1"
      by (simp add: half_even_def Let_def q_def r_def)
    with n r 3 s show ?thesis by auto
  qed
qed

text \<open>
  The format \<open>.11f\<close> of a finite float: the sign, the integer digits, a point and
  exactly 11 decimals, of the multiple of \<open>10\<^sup>-\<^sup>1\<^sup>1\<close> nearest to the float
  (\<open>half_even_nearest\<close>).
\<close>

lemma digits10_length:
  "0 < k \<Longrightarrow> n < 10 ^ k \<Longrightarrow> length (digits10 n) \<le> k"
proof (induction k arbitrary: n)
  case 0
  then show ?case by simp
next
  case (Suc k)
  show ?case
  proof (cases "n < 10")
    case True
    then show ?thesis by (subst digits10.simps) simp
  next
    case False
    with Suc.prems have k: "0 < k" by (cases k) auto
    from Suc.prems have "n div 10 < 10 ^ k" by simp
    with k have "length (digits10 (n div 10)) \<le> k" by (rule Suc.IH)
    with False show ?thesis by (subst digits10.simps) simp
  qed
qed

lemma format_11f_fraction:
  "\<exists>ip fp. format_11f (Finite s m e) = (if s then ''-'' else []) @ ip @ ''.'' @ fp
           \<and> length fp = 11"
proof -
  define q where "q = half_even (m * 100000000000 * pow2 e) (pow2 (- e))"
  define ip where "ip = digits10 (q div 100000000000)"
  define fp where "fp = replicate (11 - length (digits10 (q mod 100000000000))) (CHR ''0'')
                        @ digits10 (q mod 100000000000)"
  have "q mod 100000000000 < 10 ^ 11" by simp
  then have "length (digits10 (q mod 100000000000)) \<le> 11"
    by (intro digits10_length) simp_all
  then have l: "length fp = 11"
    by (simp add: fp_def)
  have "format_11f (Finite s m e) = (if s then ''-'' else []) @ ip @ ''.'' @ fp"
    by (simp add: format_11f_def Let_def q_def ip_def fp_def)
  with l show ?thesis by blast
qed

text \<open>
  Claim C2, amended. Let \<open>credits\<close> and \<open>equity\<close> be the brokerage metrics
  \<open>Client Credits\<close> and \<open>Client Equity\<close> (empty when absent). When both are present,
  both convert to floats (\<open>float(s)\<close> after the commas are removed) and the equity is
  greater than zero, the cash-percentage field of the record is the float
  \<open>(credits / equity) * 100\<close>, each operation rounded to the nearest binary64 number, in
  the format \<open>.11f\<close>. In every other case the field keeps what the direct mapping gave
  it: the brokerage metric \<open>Cash as % of Assets\<close> if the engine extracted it, and the
  empty string otherwise.
\<close>

theorem cash_percentage_field:
  assumes "credits = dict_get bd ''Client Credits'' []"
    and "equity = dict_get bd ''Client Equity'' []"
    and "cash = dict_get (canonical_record python_floats bd pd)
                  ''USA.OBD.INTERACTIVE.ACCOUNTLEVEL.CASH.M'' []"
  shows "(credits \<noteq> [] \<and> equity \<noteq> []
            \<and> py_float (replace '','' [] credits) = Some c
            \<and> py_float (replace '','' [] equity) = Some e \<and> float_gt0 e
          \<longrightarrow> (\<exists>q. float_div c e = Some q
                   \<and> cash = format_11f (float_mul q (Finite False 100 0))))
         \<and> (credits = [] \<or> equity = []
              \<or> py_float (replace '','' [] credits) = None
              \<or> py_float (replace '','' [] equity) = None
              \<or> (\<exists>x. py_float (replace '','' [] equity) = Some x \<and> \<not> float_gt0 x)
             \<longrightarrow> cash = dict_get bd ''Cash as % of Assets'' [])"
proof (intro conjI impI)
  assume a: "credits \<noteq> [] \<and> equity \<noteq> []
            \<and> py_float (replace '','' [] credits) = Some c
            \<and> py_float (replace '','' [] equity) = Some e \<and> float_gt0 e"
  then obtain q where q: "float_div c e = Some q"
    using positive_divisor by blast
  with a have "cash = format_11f (float_mul q (Finite False 100 0))"
    unfolding assms canonical_record_def calculate_cash_def
    by (simp add: Let_def mapped_inputs dict_get_set python_floats_def)
  with q show "\<exists>q. float_div c e = Some q
                 \<and> cash = format_11f (float_mul q (Finite False 100 0))"
    by blast
next
  assume "credits = [] \<or> equity = []
              \<or> py_float (replace '','' [] credits) = None
              \<or> py_float (replace '','' [] equity) = None
              \<or> (\<exists>x. py_float (replace '','' [] equity) = Some x \<and> \<not> float_gt0 x)"
  then show "cash = dict_get bd ''Cash as % of Assets'' []"
    unfolding assms canonical_record_def calculate_cash_def
    by (auto simp: Let_def mapped_inputs dict_get_set python_floats_def
             split: option.splits)
qed

lemma cash_engine:
  "parse_monthly_brokerage_data (Inr [table_page cash_table]) ''2025'' 1
     = Inr [(''Cash as % of Assets'', ''2.5'')]"
  by code_simp

text \<open>
  Claim C2, as the spec states it, fails in its second half. Here the brokerage engine
  extracts \<open>Cash as % of Assets\<close> and neither \<open>Client Credits\<close> nor
  \<open>Client Equity\<close>; the cash-percentage cell of the data row (cell 14, after the
  period) is the extracted value, not the empty string.
\<close>

theorem cash_field_counterexample:
  "parse_monthly_brokerage_data (Inr [table_page cash_table]) ''2025'' 1
     = Inr [(''Cash as % of Assets'', ''2.5'')]
   \<and> dict_get [(''Cash as % of Assets'', ''2.5'')] ''Client Credits'' [] = []
   \<and> dict_get [(''Cash as % of Assets'', ''2.5'')] ''Client Equity'' [] = []
   \<and> map_option (\<lambda>(f, rows). rows ! 2 ! 14)
        (artifact (process_pdf_pair python_floats (Inr [table_page cash_table])
                     (Inl ''unreadable'') (Some ''202501'') True))
      = Some ''2.5''"
  by code_simp

lemma float_examples:
  "py_float ''50.3'' = Some (Finite False 7079095664272998 (- 47))"
  "py_float ''415.1'' = Some (Finite False 7302516427037082 (- 44))"
  "float_gt0 (Finite False 7302516427037082 (- 44))"
  "float_div (Finite False 7079095664272998 (- 47)) (Finite False 7302516427037082 (- 44))
     = Some (Finite False 8731623657209768 (- 56))"
  "format_11f (float_mul (Finite False 8731623657209768 (- 56)) (Finite False 100 0))
     = ''12.11756203324''"
  "py_float ''10'' = Some (Finite False 5629499534213120 (- 49))"
  "py_float ''0'' = Some (Finite False 0 0)"
  "\<not> float_gt0 (Finite False 0 0)"
  by code_simp+

theorem cash_percentage_field_witness:
  "dict_get (canonical_record python_floats
               [(''Client Equity'', ''415.1''), (''Client Credits'', ''50.3'')] [])
     ''USA.OBD.INTERACTIVE.ACCOUNTLEVEL.CASH.M'' [] = ''12.11756203324''
   \<and> dict_get (canonical_record python_floats
                  [(''Client Equity'', ''0''), (''Client Credits'', ''10'')] [])
        ''USA.OBD.INTERACTIVE.ACCOUNTLEVEL.CASH.M'' [] = []"
proof -
  have v: "dict_get [(''Client Equity'', ''415.1''), (''Client Credits'', ''50.3'')]
             ''Client Credits'' [] = ''50.3''"
    "dict_get [(''Client Equity'', ''415.1''), (''Client Credits'', ''50.3'')]
             ''Client Equity'' [] = ''415.1''"
    "replace '','' [] ''50.3'' = ''50.3''" "replace '','' [] ''415.1'' = ''415.1''"
    by code_simp+
  have z: "dict_get [(''Client Equity'', ''0''), (''Client Credits'', ''10'')]
             ''Client Credits'' [] = ''10''"
    "dict_get [(''Client Equity'', ''0''), (''Client Credits'', ''10'')]
             ''Client Equity'' [] = ''0''"
    "dict_get [(''Client Equity'', ''0''), (''Client Credits'', ''10'')]
             ''Cash as % of Assets'' [] = []"
    "replace '','' [] ''10'' = ''10''" "replace '','' [] ''0'' = ''0''"
    by code_simp+
  from cash_percentage_field
         [where bd = "[(''Client Equity'', ''415.1''), (''Client Credits'', ''50.3'')]"
            and pd = "[]" and c = "Finite False 7079095664272998 (- 47)"
            and e = "Finite False 7302516427037082 (- 44)",
          OF refl refl refl]
  have 1: "dict_get (canonical_record python_floats
               [(''Client Equity'', ''415.1''), (''Client Credits'', ''50.3'')] [])
     ''USA.OBD.INTERACTIVE.ACCOUNTLEVEL.CASH.M'' [] = ''12.11756203324''"
    unfolding v by (auto simp: float_examples)
  from cash_percentage_field
         [where bd = "[(''Client Equity'', ''0''), (''Client Credits'', ''10'')]"
            and pd = "[]", OF refl refl refl]
  have 2: "dict_get (canonical_record python_floats
                  [(''Client Equity'', ''0''), (''Client Credits'', ''10'')] [])
        ''USA.OBD.INTERACTIVE.ACCOUNTLEVEL.CASH.M'' [] = []"
    unfolding z by (simp add: float_examples)
  from 1 2 show ?thesis by simp
qed

section \<open>The period hint\<close>

lemma isdigit_not_space: "isdigit c \<Longrightarrow> \<not> isspace c"
  by (auto simp: isdigit_def isspace_def)

lemma dropWhile_none: "(\<And>c. c \<in> set s \<Longrightarrow> \<not> P c) \<Longrightarrow> dropWhile P s = s"
  by (cases s) auto

lemma strip_digits:
  assumes "list_all isdigit s"
  shows "strip s = s"
proof -
  from assms have n: "\<And>c. c \<in> set s \<Longrightarrow> \<not> isspace c"
    by (auto simp: isdigit_not_space list_all_iff)
  then have 1: "dropWhile isspace s = s" by (rule dropWhile_none)
  from n have 2: "dropWhile isspace (rev s) = rev s"
    by (intro dropWhile_none) simp
  show ?thesis by (simp add: strip_def 1 2)
qed

lemma int_digits_all: "s \<noteq> [] \<Longrightarrow> list_all isdigit s \<Longrightarrow> int_digits s"
  by (induction s rule: int_digits.induct) (auto simp: isdigit_def)

lemma py_int_digits:
  assumes "s \<noteq> []" and "list_all isdigit s"
  shows "py_int s = Some (int_of_digits s)"
proof -
  obtain c cs where s: "s = c # cs" using assms(1) by (cases s) auto
  with assms(2) have c: "c \<noteq> CHR ''-''" "c \<noteq> CHR ''+''"
    by (auto simp: isdigit_def)
  have f: "filter (\<lambda>c. c \<noteq> CHR ''_'') s = s"
    using assms(2) by (auto simp: filter_id_conv list_all_iff isdigit_def)
  have "strip s = s" using assms(2) by (rule strip_digits)
  then show ?thesis
    using c f int_digits_all [OF assms] unfolding py_int_def s
    by (simp add: Let_def)
qed

lemma hint_period_digits:
  assumes "length p = 6" and "list_all isdigit p"
  shows "hint_period (Some p) = (Some (take 4 p), Some (int_of_digits (drop 4 p)))"
proof -
  from assms(1) have ne: "p \<noteq> []" "drop 4 p \<noteq> []" by auto
  from assms(2) have "list_all isdigit (drop 4 p)"
    by (auto simp: list_all_iff dest: in_set_dropD)
  with ne have "py_int (drop 4 p) = Some (int_of_digits (drop 4 p))"
    by (intro py_int_digits)
  with assms ne show ?thesis
    by (simp add: hint_period_def str_isdigit_def)
qed

lemma hint_period_malformed:
  assumes "date_prefix = None
           \<or> (\<exists>p. date_prefix = Some p \<and> (length p \<noteq> 6 \<or> \<not> list_all isdigit p))"
  shows "hint_period date_prefix = (None, None)"
  using assms by (auto simp: hint_period_def str_isdigit_def)

text \<open>
  Claim C4, amended. A hint of exactly six decimal digits whose month digits are not
  \<open>00\<close> (so every hint with a year in 2015..2030 and a month in 1..12) is used as it
  is, the first four characters as the year and the number of the last two as the
  month, whatever the documents contain. A hint of six digits with month digits
  \<open>00\<close>, and a hint that is absent or is not six decimal digits, make the resolver run
  the content inference on the documents. A six-digit hint with a month above 12 or a
  year out of range is not sent to content inference: it is used as it is.
\<close>

theorem hint_or_content_inference:
  "(length p = 6 \<and> list_all isdigit p \<and> int_of_digits (drop 4 p) \<noteq> 0 \<longrightarrow>
      resolve_period (Some p) bdoc pdoc = Some (take 4 p, int_of_digits (drop 4 p)))
   \<and> (length p = 6 \<and> list_all isdigit p \<and> int_of_digits (drop 4 p) = 0 \<longrightarrow>
      resolve_period (Some p) bdoc pdoc
        = final_period (content_inference bdoc pdoc (Some (take 4 p), Some 0)))
   \<and> (date_prefix = None
        \<or> (\<exists>q. date_prefix = Some q \<and> (length q \<noteq> 6 \<or> \<not> list_all isdigit q)) \<longrightarrow>
      resolve_period date_prefix bdoc pdoc
        = final_period (content_inference bdoc pdoc (None, None)))"
proof (intro conjI impI)
  assume a: "length p = 6 \<and> list_all isdigit p \<and> int_of_digits (drop 4 p) \<noteq> 0"
  then have "take 4 p \<noteq> []" by auto
  with a show "resolve_period (Some p) bdoc pdoc = Some (take 4 p, int_of_digits (drop 4 p))"
    by (simp add: resolve_period_def hint_period_digits truthy_str_def truthy_int_def
          final_period_def)
next
  assume a: "length p = 6 \<and> list_all isdigit p \<and> int_of_digits (drop 4 p) = 0"
  then show "resolve_period (Some p) bdoc pdoc
               = final_period (content_inference bdoc pdoc (Some (take 4 p), Some 0))"
    by (simp add: resolve_period_def hint_period_digits truthy_int_def)
next
  assume "date_prefix = None
          \<or> (\<exists>q. date_prefix = Some q \<and> (length q \<noteq> 6 \<or> \<not> list_all isdigit q))"
  then have "hint_period date_prefix = (None, None)"
    by (rule hint_period_malformed)
  then show "resolve_period date_prefix bdoc pdoc
               = final_period (content_inference bdoc pdoc (None, None))"
    by (simp add: resolve_period_def truthy_str_def)
qed

lemma august_inference:
  "final_period (content_inference (Inr [text_page ''for August 2025'']) (Inr []) (None, None))
     = Some (''2025'', 8)"
  by code_simp

theorem hint_or_content_inference_witness:
  "length ''202508'' = 6 \<and> list_all isdigit ''202508'' \<and> int_of_digits (drop 4 ''202508'') \<noteq> 0
   \<and> resolve_period (Some ''202508'') (Inr []) (Inr []) = Some (''2025'', 8)
   \<and> resolve_period None (Inr [text_page ''for August 2025'']) (Inr []) = Some (''2025'', 8)
   \<and> resolve_period (Some ''2025-8'') (Inr [text_page ''for August 2025'']) (Inr [])
       = Some (''2025'', 8)"
proof -
  have h: "length ''202508'' = 6" "list_all isdigit ''202508''"
    "int_of_digits (drop 4 ''202508'') = 8" "take 4 ''202508'' = ''2025''"
    "\<not> list_all isdigit ''2025-8''"
    by code_simp+
  from hint_or_content_inference
         [where p = "''202508''" and bdoc = "Inr []" and pdoc = "Inr []"] h
  have 1: "resolve_period (Some ''202508'') (Inr []) (Inr []) = Some (''2025'', 8)"
    by simp
  from hint_or_content_inference
         [where date_prefix = None and bdoc = "Inr [text_page ''for August 2025'']"
            and pdoc = "Inr []"] august_inference
  have 2: "resolve_period None (Inr [text_page ''for August 2025'']) (Inr [])
             = Some (''2025'', 8)"
    by simp
  from hint_or_content_inference
         [where date_prefix = "Some ''2025-8''" and bdoc = "Inr [text_page ''for August 2025'']"
            and pdoc = "Inr []"] august_inference h(5)
  have 3: "resolve_period (Some ''2025-8'') (Inr [text_page ''for August 2025'']) (Inr [])
             = Some (''2025'', 8)"
    by simp
  from 1 2 3 h show ?thesis by simp
qed

text \<open>
  Claim C4, as the spec states it, fails in its second half. The hint \<open>202513\<close> has a
  month outside 1..12; the brokerage document names August 2025, which content inference
  finds; the resolver does not run the inference and keeps month 13, which the tabular
  engine then rejects.
\<close>

theorem malformed_hint_counterexample:
  "resolve_period (Some ''202513'') (Inr [text_page ''for August 2025'']) (Inr [])
     = Some (''2025'', 13)
   \<and> final_period (content_inference (Inr [text_page ''for August 2025'']) (Inr []) (None, None))
     = Some (''2025'', 8)
   \<and> parse_monthly_brokerage_data (Inr [text_page ''for August 2025'']) ''2025'' 13
     = Inl ''Invalid target month number: 13''"
  by code_simp

section \<open>No column without the month in the header\<close>

lemma first_index_None: "first_index P xs = None \<longleftrightarrow> (\<forall>x \<in> set xs. \<not> P x)"
  by (induction xs) auto

lemma first_index_Some:
  "first_index P xs = Some i \<Longrightarrow> i < length xs \<and> P (xs ! i)"
  by (induction xs arbitrary: i) (auto split: if_splits)

lemma text_strategy_needs_header:
  assumes "\<forall>line \<in> set (split_on (CHR 0x0A) (full_text_of pages)).
             \<not> is_header_line abbr line"
  shows "isl (parse_using_text_extraction pages y abbr)"
proof -
  from assms have "first_index (is_header_line abbr) (split_on (CHR 0x0A) (full_text_of pages))
                     = None"
    by (simp add: first_index_None)
  then show ?thesis
    by (simp add: parse_using_text_extraction_def Let_def)
qed

lemma column_bounds_absent:
  "\<forall>w \<in> set hs. w_text w \<noteq> abbr \<Longrightarrow> column_bounds abbr hs = (- 1, None)"
  by (induction hs) auto

lemma coordinate_strategy_needs_header:
  assumes "\<forall>w \<in> set (extract_words page). w_text w \<noteq> abbr"
  shows "isl (parse_using_coordinates (page # rest) y abbr)"
proof -
  have cb: "column_bounds abbr
          (sort_key w_x0 (filter (\<lambda>w. w_text w \<in> set VALID_MONTHS \<and> w_top yw - 15 < w_top w)
             (extract_words page))) = (- 1, None)" for yw
    using assms by (intro column_bounds_absent) auto
  show ?thesis
    by (simp add: parse_using_coordinates_def Let_def cb split: option.splits)
qed

lemma target_column_absent:
  "\<forall>cell \<in> set row. \<not> str_in abbr (cell_str cell) \<Longrightarrow> target_column abbr row = None"
  by (simp add: target_column_def first_index_None)

lemma table_step_no_target:
  assumes "\<forall>i. first_index is_header_row table = Some i \<longrightarrow>
                (\<forall>cell \<in> set (table ! i). \<not> str_in abbr (cell_str cell))"
  shows "table_step abbr d table = d"
proof (cases "first_index is_header_row table")
  case None
  then show ?thesis by (simp add: table_step_def)
next
  case (Some i)
  with assms have "target_column abbr (table ! i) = None"
    by (intro target_column_absent) simp
  with Some show ?thesis by (simp add: table_step_def)
qed

lemma tables_no_target:
  assumes "\<forall>table \<in> set tables. \<forall>i. first_index is_header_row table = Some i \<longrightarrow>
                (\<forall>cell \<in> set (table ! i). \<not> str_in abbr (cell_str cell))"
  shows "foldl (table_step abbr) d tables = d"
  using assms by (induction tables arbitrary: d) (simp_all add: table_step_no_target)

lemma table_strategy_needs_header:
  assumes "\<forall>table \<in> set (extract_tables page).
             \<forall>i. first_index is_header_row table = Some i \<longrightarrow>
                (\<forall>cell \<in> set (table ! i). \<not> str_in abbr (cell_str cell))"
  shows "isl (parse_using_table_extraction (page # rest) y abbr)
         \<or> parse_using_table_extraction (page # rest) y abbr = Inr []"
  using tables_no_target [OF assms]
  by (simp add: parse_using_table_extraction_def Let_def)

text \<open>
  Claim C7. For every target abbreviation, each strategy extracts nothing unless the
  abbreviation literally appears in the header it looks at. The text-line strategy
  returns an error when no line that holds \<open>Jan\<close>, \<open>Feb\<close> and \<open>Mar\<close> also holds the
  abbreviation. The coordinate strategy returns an error when no word of the page is
  the abbreviation. The table strategy returns an error or the empty dictionary when,
  in every table, the header row (the first row with a month) has no cell that holds
  the abbreviation. None of them falls back on a column chosen by position alone.
\<close>

theorem no_extraction_without_month_header:
  "((\<forall>line \<in> set (split_on (CHR 0x0A) (full_text_of (page # rest))).
        list_all (\<lambda>month. str_in month line) [''Jan'', ''Feb'', ''Mar'']
        \<longrightarrow> \<not> str_in abbr line)
      \<longrightarrow> isl (parse_using_text_extraction (page # rest) y abbr))
   \<and> ((\<forall>w \<in> set (extract_words page). w_text w \<noteq> abbr)
      \<longrightarrow> isl (parse_using_coordinates (page # rest) y abbr))
   \<and> ((\<forall>table \<in> set (extract_tables page).
         \<forall>i. first_index is_header_row table = Some i \<longrightarrow>
            (\<forall>cell \<in> set (table ! i). \<not> str_in abbr (cell_str cell)))
      \<longrightarrow> isl (parse_using_table_extraction (page # rest) y abbr)
          \<or> parse_using_table_extraction (page # rest) y abbr = Inr [])"
proof (intro conjI impI)
  assume "\<forall>line \<in> set (split_on (CHR 0x0A) (full_text_of (page # rest))).
            list_all (\<lambda>month. str_in month line) [''Jan'', ''Feb'', ''Mar'']
            \<longrightarrow> \<not> str_in abbr line"
  then have "\<forall>line \<in> set (split_on (CHR 0x0A) (full_text_of (page # rest))).
               \<not> is_header_line abbr line"
    unfolding is_header_line_def by blast
  then show "isl (parse_using_text_extraction (page # rest) y abbr)"
    by (rule text_strategy_needs_header)
next
  assume "\<forall>w \<in> set (extract_words page). w_text w \<noteq> abbr"
  then show "isl (parse_using_coordinates (page # rest) y abbr)"
    by (rule coordinate_strategy_needs_header)
next
  assume "\<forall>table \<in> set (extract_tables page).
            \<forall>i. first_index is_header_row table = Some i \<longrightarrow>
               (\<forall>cell \<in> set (table ! i). \<not> str_in abbr (cell_str cell))"
  then show "isl (parse_using_table_extraction (page # rest) y abbr)
             \<or> parse_using_table_extraction (page # rest) y abbr = Inr []"
    by (rule table_strategy_needs_header)
qed

lemma header_page_march:
  "parse_using_text_extraction [header_page] ''2025'' ''Mar'' = Inr [(''Stock Shares'', ''7'')]"
  "parse_using_table_extraction [header_page] ''2025'' ''Mar'' = Inr [(''Stock Shares'', ''7'')]"
  by code_simp+

theorem no_extraction_without_month_header_witness:
  "isl (parse_using_text_extraction [header_page] ''2025'' ''Aug'')
   \<and> isl (parse_using_coordinates [header_page] ''2025'' ''Aug'')
   \<and> (isl (parse_using_table_extraction [header_page] ''2025'' ''Aug'')
       \<or> parse_using_table_extraction [header_page] ''2025'' ''Aug'' = Inr [])"
proof -
  have a: "\<forall>line \<in> set (split_on (CHR 0x0A) (full_text_of [header_page])).
        list_all (\<lambda>month. str_in month line) [''Jan'', ''Feb'', ''Mar'']
        \<longrightarrow> \<not> str_in ''Aug'' line"
    by code_simp
  have b: "\<forall>w \<in> set (extract_words header_page). w_text w \<noteq> ''Aug''"
    by code_simp
  have t: "extract_tables header_page =
             [[[Some ''Metric'', Some ''Jan'', Some ''Feb'', Some ''Mar''],
               [Some ''Stock Shares'', Some ''5'', Some ''6'', Some ''7'']]]"
    by (simp add: header_page_def)
  have i: "first_index is_header_row
             [[Some ''Metric'', Some ''Jan'', Some ''Feb'', Some ''Mar''],
              [Some ''Stock Shares'', Some ''5'', Some ''6'', Some ''7'']] = Some 0"
    by code_simp
  have h: "\<forall>cell \<in> set [Some ''Metric'', Some ''Jan'', Some ''Feb'', Some ''Mar''].
             \<not> str_in ''Aug'' (cell_str cell)"
    by code_simp
  have c: "\<forall>table \<in> set (extract_tables header_page).
         \<forall>i. first_index is_header_row table = Some i \<longrightarrow>
            (\<forall>cell \<in> set (table ! i). \<not> str_in ''Aug'' (cell_str cell))"
    unfolding t using i h by simp
  from no_extraction_without_month_header [of header_page "[]" "''Aug''" "''2025''"] a b c
  show ?thesis by blast
qed

section \<open>Inference of the month from the table\<close>

lemma date_of_groups_single: "date_of_groups [g] = None"
  by (simp add: date_of_groups_def)

lemma first_some_Some:
  "first_some f xs = Some y \<Longrightarrow> \<exists>x \<in> set xs. f x = Some y"
  by (induction xs) (auto split: option.splits)

lemma month_name_range:
  "map_of month_name_to_num s = Some m \<Longrightarrow> 1 \<le> m \<and> m \<le> 12"
  unfolding month_name_to_num_def by (auto split: if_splits)

lemma date_of_groups_month:
  "date_of_groups gs = Some (y, m) \<Longrightarrow> 1 \<le> m \<and> m \<le> 12"
  unfolding date_of_groups_def
  by (auto split: list.splits if_splits option.splits dest: month_name_range)

lemma extract_date_both_or_none:
  "extract_date_from_content text = (None, None)
   \<or> (\<exists>year month. extract_date_from_content text = (Some year, Some month)
                     \<and> 1 \<le> month \<and> month \<le> 12)"
proof (cases "first_some
             (\<lambda>(pattern, n).
                first_some (\<lambda>m. date_of_groups (groups m n))
                  (re_finditer True pattern (lower text)))
             date_patterns")
  case None
  then show ?thesis by (simp add: extract_date_from_content_def)
next
  case (Some ym)
  obtain y m where ym: "ym = (y, m)" by (cases ym)
  from first_some_Some [OF Some] obtain pattern n where
    "first_some (\<lambda>m. date_of_groups (groups m n)) (re_finditer True pattern (lower text))
       = Some (y, m)"
    unfolding ym by auto
  from first_some_Some [OF this] obtain gs where "date_of_groups gs = Some (y, m)"
    by auto
  then have "1 \<le> m \<and> m \<le> 12" by (rule date_of_groups_month)
  with Some ym show ?thesis by (simp add: extract_date_from_content_def)
qed

lemma month_detection_unreachable:
  "brokerage_fallback doc period
     = (case document_text doc of
          None \<Rightarrow> period
        | Some t \<Rightarrow> (case extract_date_from_content t of
                       (Some y, Some m) \<Rightarrow> if y = 0 then period
                                           else (Some (str_of_int y), Some m)
                     | _ \<Rightarrow> period))"
proof (cases "document_text doc")
  case None
  then show ?thesis by (cases period) (simp add: brokerage_fallback_def)
next
  case (Some t)
  from extract_date_both_or_none [of t] show ?thesis
  proof
    assume "extract_date_from_content t = (None, None)"
    with Some show ?thesis by (cases period) (simp add: brokerage_fallback_def)
  next
    assume "\<exists>year month. extract_date_from_content t = (Some year, Some month)
                          \<and> 1 \<le> month \<and> month \<le> 12"
    then obtain y m where "extract_date_from_content t = (Some y, Some m)" "m \<noteq> 0"
      by auto
    with Some show ?thesis
      by (cases period) (simp add: brokerage_fallback_def truthy_int_def)
  qed
qed

text \<open>
  Claim C8 describes what the source means to do, and the code does not do it.
  \<open>extract_date_from_content\<close> returns a year only together with a month: on a match of
  a year-only pattern it assigns the year to a local variable and continues, and it ends
  with \<open>None, None\<close>. So the branch of \<open>process_pdf_pair\<close> that calls
  \<open>detect_latest_month_from_data\<close> is never taken (\<open>month_detection_unreachable\<close>).
  Below, the brokerage text has the year line \<open>2025 % Change\<close>, which the first pattern
  matches, and a header row followed by a row of eight numbers, from which
  \<open>detect_latest_month_from_data\<close> would return month 8; the resolver finds no period,
  without a hint and with the hint \<open>202500\<close>.
\<close>

theorem year_only_match_not_resolved:
  "re_finditer True (fst (hd date_patterns)) (lower year_only_text) \<noteq> []
   \<and> extract_date_from_content year_only_text = (None, None)
   \<and> detect_latest_month_from_data year_only_text 2025 = Some 8
   \<and> resolve_period None (Inr [text_page year_only_text]) (Inr [text_page year_only_text])
       = None
   \<and> resolve_period (Some ''202500'') (Inr [text_page year_only_text])
         (Inr [text_page year_only_text])
       = None"
  by code_simp

theorem year_only_match_not_resolved_witness:
  "detect_latest_month_from_data year_only_text 2025 = Some 8
   \<and> resolve_period None (Inr [text_page year_only_text]) (Inr [text_page year_only_text])
       = None"
  using year_only_match_not_resolved by blast

section \<open>The narrative engine on the product patterns\<close>

text \<open>
  Claim C9 holds for the order of the pattern sets and for the products already found,
  but the code does not always strip the unit word. The primary pattern lets any white
  space stand between the number and the unit, and is matched without regard to case;
  the unit is then removed only where it is written \<open>" shares"\<close> or \<open>" contracts"\<close>,
  with one space and in lower case. Below, a line break separates the number from the
  unit, and the order size that is emitted still holds the unit word.
\<close>

theorem unit_word_not_stripped:
  "parse_press_release (Inr [text_page ''Stocks 1,200,000\<newline>shares $0.85''])
     = Inr [(''Stocks'', [(''Average Order Size'', ''1200000\<newline>shares''),
                          (''Average Commission'', ''0.85'')])]"
  by code_simp

text \<open>
  The scenario of the spec: the text is matched by the primary pattern, which gives the
  order size and the commission that the spec names.
\<close>

lemma narrative_scenario:
  "re_search True (snd (hd primary_patterns)) ''Stocks 1,200,000 shares $0.85'' \<noteq> None"
  "parse_press_release (Inr [text_page ''Stocks 1,200,000 shares $0.85''])
     = Inr [(''Stocks'', [(''Average Order Size'', ''1200000''),
                          (''Average Commission'', ''0.85'')])]"
  by code_simp+

end
